theory Spec2Isabelle
  imports Complex_Main "HOL-Library.Word"
begin

section \<open>Python values and exceptions\<close>

text \<open>
  The simulator is Python 2 code (\<open>collections.Mapping\<close>, \<open>zip(...) += ...\<close>, integer
  \<open>/\<close>). Every exception the modelled code can raise is a value of \<open>exn\<close>; a function
  that can raise returns \<open>exn + 'a\<close> with \<open>Inl\<close> for the exception.
\<close>

datatype exn =
    TypeError
  | ValueError
  | IndexError
  | KeyError
  | ZeroDivisionError
  | SimulatorException
  | AttributeError
  | RuntimeError
  | CompileError
  | LaunchError
  | CudaError

type_synonym int32 = "32 word"

text \<open>Python 2 \<open>a % b\<close> and \<open>a / b\<close> on ints: floor division, as \<open>mod\<close> and \<open>div\<close> on \<open>int\<close>.\<close>

definition py_mod :: "int \<Rightarrow> int \<Rightarrow> exn + int" where
  "py_mod a b = (if b = 0 then Inl ZeroDivisionError else Inr (a mod b))"

definition py_div :: "int \<Rightarrow> int \<Rightarrow> exn + int" where
  "py_div a b = (if b = 0 then Inl ZeroDivisionError else Inr (a div b))"

section \<open>Launch geometry\<close>

text \<open>
  \<open>GPUSimulator.run\<close>, lines 335-345, and \<open>GPUSimulator.run_one_step\<close>, lines 287-297
  (the same text): \<open>threads\<close> is the keyword argument (\<open>None\<close> selects 128), \<open>n\<close> is
  \<open>len(param_values)\<close>. The result is \<open>(_threads, _blocks, _total_threads)\<close>.
\<close>

definition launch_geometry :: "int option \<Rightarrow> nat \<Rightarrow> exn + (int \<times> int \<times> int)" where
  "launch_geometry threads n =
     (let t = (case threads of None \<Rightarrow> 128 | Some v \<Rightarrow> v) in
      case py_mod (int n) t of
        Inl e \<Rightarrow> Inl e
      | Inr r \<Rightarrow>
          (case py_div (int n) t of
             Inl e \<Rightarrow> Inl e
           | Inr q \<Rightarrow>
               (let b = (if r = 0 then q else q + 1)
                in Inr (t, b, b * t))))"

section \<open>The model tables the simulator consumes\<close>

text \<open>
  \<open>pysb.Model\<close> after \<open>generate_equations\<close>, as far as the simulator reads it. A
  reaction's \<open>reactants\<close> and \<open>products\<close> are species indices; \<open>rate\<close> is the
  text \<open>sympy.fcode(rxn["rate"])\<close> prints for the rate (sympy is outside this
  repository). An expression carries its name and the text
  \<open>sympy.ccode(e.expand_expr())\<close>; a species is its \<open>str\<close>.
\<close>

record reaction =
  reactants :: "int list"
  products :: "int list"
  rate :: string

record expression =
  expr_name :: string
  expr_ccode :: string

record observable =
  obs_name :: string
  coefficients :: "int list"
  obs_species :: "int list"

record parameter =
  par_name :: string
  par_value :: real

record model =
  reactions :: "reaction list"
  species :: "string list"
  parameters :: "parameter list"
  expressions :: "expression list"
  observables :: "observable list"
  initial_conditions :: "(string \<times> real) list"

section \<open>Stoichiometry\<close>

text \<open>A two-dimensional numpy array is the list of its rows; \<open>np.zeros((r, c))\<close>:\<close>

definition zeros2 :: "nat \<Rightarrow> nat \<Rightarrow> 'a::zero list list" where
  "zeros2 r c = replicate r (replicate c 0)"

text \<open>\<open>a[i, j] = v\<close> for indices in range (the loops below never leave the range).\<close>

definition set2 :: "'a list list \<Rightarrow> nat \<Rightarrow> nat \<Rightarrow> 'a \<Rightarrow> 'a list list" where
  "set2 a i j v = a[i := (a ! i)[j := v]]"

text \<open>
  The innermost loop of \<open>_lhs\<close> and \<open>_rhs\<close>:
  \<open>stoich = 0; for k in ks: if j == k: stoich += 1\<close>.
\<close>

definition stoich_count :: "int \<Rightarrow> int list \<Rightarrow> int" where
  "stoich_count j ks = fold (\<lambda>k stoich. if j = k then stoich + 1 else stoich) ks 0"

text \<open>
  The two outer loops, shared by \<open>_lhs\<close> (\<open>side = reactants\<close>) and \<open>_rhs\<close>
  (\<open>side = products\<close>). The array has dtype \<open>int32\<close>: the store keeps the low 32 bits.
\<close>

definition fill_side :: "(reaction \<Rightarrow> int list) \<Rightarrow> model \<Rightarrow> int32 list list" where
  "fill_side side m =
     fold (\<lambda>i a.
        fold (\<lambda>j a. set2 a i j (word_of_int (stoich_count (int j) (side (reactions m ! i)))))
          [0 ..< length (species m)] a)
       [0 ..< length (reactions m)]
       (zeros2 (length (reactions m)) (length (species m)))"

definition lhs :: "model \<Rightarrow> int32 list list" where
  "lhs m = map (map (\<lambda>x. x * (- 1))) (fill_side reactants m)"

definition rhs :: "model \<Rightarrow> int32 list list" where
  "rhs m = fill_side products m"

text \<open>Elementwise \<open>a + b\<close> of equal shapes, and \<open>a.T\<close> of an array of shape \<open>(r, c)\<close>.\<close>

definition add2 :: "int32 list list \<Rightarrow> int32 list list \<Rightarrow> int32 list list" where
  "add2 a b = map2 (map2 (+)) a b"

definition transpose2 :: "nat \<Rightarrow> nat \<Rightarrow> 'a list list \<Rightarrow> 'a list list" where
  "transpose2 r c a = map (\<lambda>j. map (\<lambda>i. a ! i ! j) [0 ..< r]) [0 ..< c]"

text \<open>\<open>stoich_matrix = (_rhs(self._model) + _lhs(self._model)).T\<close>, species by reactions.\<close>

definition stoich_matrix :: "model \<Rightarrow> int32 list list" where
  "stoich_matrix m =
     transpose2 (length (reactions m)) (length (species m)) (add2 (rhs m) (lhs m))"

text \<open>Every species index a reaction mentions is an index of \<open>model.species\<close>.\<close>

definition indices_in_range :: "model \<Rightarrow> bool" where
  "indices_in_range m =
     list_all (\<lambda>r. list_all (\<lambda>k. 0 \<le> k \<and> k < int (length (species m)))
                      (reactants r @ products r)) (reactions m)"

section \<open>Text\<close>

text \<open>Character classes of Python 2 \<open>re\<close> on byte strings: \<open>\d\<close>, \<open>\w\<close>, \<open>\s\<close>.\<close>

definition is_digit :: "char \<Rightarrow> bool" where
  "is_digit c = (c \<in> set ''0123456789'')"

definition is_word :: "char \<Rightarrow> bool" where
  "is_word c = (c \<in> set ''abcdefghijklmnopqrstuvwxyzABCDEFGHIJKLMNOPQRSTUVWXYZ0123456789_'')"

definition is_space :: "char \<Rightarrow> bool" where
  "is_space c = (c \<in> {CHR '' '', CHR 0x09, CHR 0x0A, CHR 0x0B, CHR 0x0C, CHR 0x0D})"

text \<open>\<open>str(n)\<close> and \<open>repr(n)\<close> of an integer, and \<open>int(ds)\<close> of a string of digits.\<close>

fun str_nat :: "nat \<Rightarrow> string" where
  "str_nat n = (if n < 10 then [''0123456789'' ! n]
                else str_nat (n div 10) @ [''0123456789'' ! (n mod 10)])"

declare str_nat.simps [simp del]

definition str_int :: "int \<Rightarrow> string" where
  "str_int i = (if i < 0 then CHR ''-'' # str_nat (nat (- i)) else str_nat (nat i))"

definition digit_val :: "char \<Rightarrow> nat" where
  "digit_val c = (of_char c - 48)"

definition nat_of_digits :: "string \<Rightarrow> nat" where
  "nat_of_digits ds = fold (\<lambda>c n. 10 * n + digit_val c) ds 0"

subsection \<open>Scanning\<close>

text \<open>
  \<open>re.sub\<close>, \<open>re.findall\<close> and \<open>str.replace\<close> scan the subject from left to right for
  non-overlapping matches. A pattern is given by its matcher: told whether the
  character before the position is a word character (for \<open>\b\<close>) and the text from
  the position on, it returns the length of the match there, if any. None of the
  patterns of the simulator matches the empty string. The counter is the number of
  characters of the current match still to be skipped.
\<close>

type_synonym matcher = "bool \<Rightarrow> string \<Rightarrow> nat option"

fun sub_scan :: "matcher \<Rightarrow> (string \<Rightarrow> string) \<Rightarrow> nat \<Rightarrow> bool \<Rightarrow> string \<Rightarrow> string" where
  "sub_scan mt repl k prev [] = []"
| "sub_scan mt repl (Suc k) prev (c # cs) = sub_scan mt repl k (is_word c) cs"
| "sub_scan mt repl 0 prev (c # cs) =
     (case mt prev (c # cs) of
        Some (Suc n) \<Rightarrow> repl (take (Suc n) (c # cs)) @ sub_scan mt repl n (is_word c) cs
      | _ \<Rightarrow> c # sub_scan mt repl 0 (is_word c) cs)"

fun findall_scan :: "matcher \<Rightarrow> nat \<Rightarrow> bool \<Rightarrow> string \<Rightarrow> string list" where
  "findall_scan mt k prev [] = []"
| "findall_scan mt (Suc k) prev (c # cs) = findall_scan mt k (is_word c) cs"
| "findall_scan mt 0 prev (c # cs) =
     (case mt prev (c # cs) of
        Some (Suc n) \<Rightarrow> take (Suc n) (c # cs) # findall_scan mt n (is_word c) cs
      | _ \<Rightarrow> findall_scan mt 0 (is_word c) cs)"

definition re_sub :: "matcher \<Rightarrow> (string \<Rightarrow> string) \<Rightarrow> string \<Rightarrow> string" where
  "re_sub mt repl s = sub_scan mt repl 0 False s"

definition re_findall :: "matcher \<Rightarrow> string \<Rightarrow> string list" where
  "re_findall mt s = findall_scan mt 0 False s"

subsection \<open>The patterns of \<open>_pysb_to_cuda\<close>\<close>

text \<open>A literal text, as in \<open>re.sub('d0', ...)\<close> and \<open>str.replace('pow', ...)\<close>.\<close>

definition lit :: "string \<Rightarrow> matcher" where
  "lit w prev s = (if w \<noteq> [] \<and> take (length w) s = w then Some (length w) else None)"

text \<open>
  \<open>r'\b%s\b' % name\<close> and \<open>r'\b(%s)\b' % name\<close>: the name between two word boundaries.
  Component names are identifiers, so the interpolated pattern is the literal name. A
  boundary lies between a word character and a non-word character or an end of the text.
\<close>

definition word_pat :: "string \<Rightarrow> matcher" where
  "word_pat w prev s =
     (if w \<noteq> [] \<and> take (length w) s = w
         \<and> prev \<noteq> is_word (hd w)
         \<and> is_word (last w) \<noteq> (case drop (length w) s of [] \<Rightarrow> False | c # _ \<Rightarrow> is_word c)
      then Some (length w) else None)"

text \<open>\<open>\s\<close>: one whitespace character.\<close>

definition space_pat :: matcher where
  "space_pat prev s = (case s of [] \<Rightarrow> None | c # _ \<Rightarrow> if is_space c then Some 1 else None)"

text \<open>
  \<open>"(__s\d+)\*\*(\d+)"\<close>: a species symbol raised to a literal power. Both runs of
  digits are greedy, and a shorter run can never help the rest to match.
\<close>

definition pow_pat :: matcher where
  "pow_pat prev s =
     (let ds = takeWhile is_digit (drop 3 s);
          r = dropWhile is_digit (drop 3 s);
          ps = takeWhile is_digit (drop 2 r)
      in if take 3 s = ''__s'' \<and> ds \<noteq> [] \<and> take 2 r = ''**'' \<and> ps \<noteq> []
         then Some (3 + length ds + 2 + length ps) else None)"

text \<open>The two groups of a match of \<open>pow_pat\<close>: the symbol and the exponent.\<close>

definition pow_groups :: "string \<Rightarrow> string \<times> string" where
  "pow_groups t = (takeWhile (\<lambda>c. c \<noteq> CHR ''*'') t,
                   drop 2 (dropWhile (\<lambda>c. c \<noteq> CHR ''*'') t))"

text \<open>\<open>r'_*s(\d+)'\<close>: underscores, an \<open>s\<close>, digits; the group is the run of digits.\<close>

definition species_pat :: matcher where
  "species_pat prev s =
     (let us = takeWhile (\<lambda>c. c = CHR ''_'') s;
          r = dropWhile (\<lambda>c. c = CHR ''_'') s;
          ds = takeWhile is_digit (drop 1 r)
      in if take 1 r = ''s'' \<and> ds \<noteq> [] then Some (length us + 1 + length ds) else None)"

definition species_repl :: "string \<Rightarrow> string" where
  "species_repl t =
     ''y['' @ str_nat (nat_of_digits (drop 1 (dropWhile (\<lambda>c. c = CHR ''_'') t))) @ '']''"

subsection \<open>Integer powers\<close>

text \<open>
  Lines 129-135:
  \<^verbatim>\<open>
  pattern = "(__s\d+)\*\*(\d+)"
  matches = re.findall(pattern, rate)
  for m in matches:
      repl = m[0]
      for i in range(1, int(m[1])):
          repl += "*(%s-%d)" % (m[0], i)
      rate = re.sub(pattern, repl, rate)
  \<close>
  \<open>re.sub\<close> is given the pattern, not the text of \<open>m\<close>: it rewrites every power
  still in \<open>rate\<close> with the expansion of \<open>m\<close>.
\<close>

definition power_repl :: "string \<times> string \<Rightarrow> string" where
  "power_repl m =
     fold (\<lambda>i repl. repl @ ''*('' @ fst m @ ''-'' @ str_nat i @ '')'')
       [1 ..< nat_of_digits (snd m)] (fst m)"

definition expand_powers :: "string \<Rightarrow> string" where
  "expand_powers txt =
     fold (\<lambda>m txt. re_sub pow_pat (\<lambda>_. power_repl m) txt)
       (map pow_groups (re_findall pow_pat txt)) txt"

section \<open>Kernel source generation\<close>

text \<open>
  \<open>pycuda_templates/gillespie_template.cu\<close> is not part of the sources at hand. The
  template enters as what \<open>_load_template().format(...)\<close> makes of the keyword
  arguments it is given.
\<close>

datatype fmt_arg = FInt int | FStr string

type_synonym template = "(string \<times> fmt_arg) list \<Rightarrow> exn + string"

text \<open>Lines 100-107. \<open>stoich_matrix[0]\<close> raises when the model has no species.\<close>

definition stoich_string :: "int32 list list \<Rightarrow> exn + string" where
  "stoich_string sm =
     (case sm of
        [] \<Rightarrow> Inl IndexError
      | row0 # _ \<Rightarrow>
          Inr (fold (\<lambda>i acc.
                 fold (\<lambda>j acc.
                    (let acc1 = acc @ [CHR 0x09] @ str_int (sint (sm ! j ! i))
                     in if \<not> (int i = int (length sm) - 1 \<and> int j = int (length row0) - 1)
                        then acc1 @ '','' else acc1))
                   [0 ..< length sm] acc @ [CHR 0x0A])
               [0 ..< length row0] []))"

text \<open>Lines 118-126: an observable as a sum of species symbols.\<close>

fun obs_terms :: "observable \<Rightarrow> nat list \<Rightarrow> string \<Rightarrow> exn + string" where
  "obs_terms ob [] acc = Inr acc"
| "obs_terms ob (i # is) acc =
     (let acc1 = (if i > 0 then acc @ ''+'' else acc);
          acc2 = (if coefficients ob ! i > 1 then acc1 @ str_int (coefficients ob ! i) @ ''*''
                  else acc1)
      in if i < length (obs_species ob)
         then obs_terms ob is (acc2 @ ''__s'' @ str_int (obs_species ob ! i))
         else Inl IndexError)"

definition obs_string :: "observable \<Rightarrow> exn + string" where
  "obs_string ob =
     (case obs_terms ob [0 ..< length (coefficients ob)] [] of
        Inl e \<Rightarrow> Inl e
      | Inr t \<Rightarrow> Inr (if length (coefficients ob) > 1 then ''('' @ t @ '')'' else t))"

text \<open>Lines 117-127, the loop over the observables.\<close>

fun sub_observables :: "observable list \<Rightarrow> string \<Rightarrow> exn + string" where
  "sub_observables [] txt = Inr txt"
| "sub_observables (ob # obs) txt =
     (case obs_string ob of
        Inl e \<Rightarrow> Inl e
      | Inr t \<Rightarrow> sub_observables obs (re_sub (word_pat (obs_name ob)) (\<lambda>_. t) txt))"

text \<open>Lines 112-145: the hazard of one reaction, from the printed rate.\<close>

definition hazard_rate :: "model \<Rightarrow> string \<Rightarrow> exn + string" where
  "hazard_rate m txt =
     (let t1 = fold (\<lambda>e t. re_sub (word_pat (expr_name e)) (\<lambda>_. ''('' @ expr_ccode e @ '')'') t)
                 (expressions m) txt
      in case sub_observables (observables m) t1 of
           Inl e \<Rightarrow> Inl e
         | Inr t2 \<Rightarrow>
             (let t3 = expand_powers t2;
                  t4 = re_sub species_pat species_repl t3;
                  t5 = fold (\<lambda>(q, prm) t.
                          re_sub (word_pat prm) (\<lambda>_. ''tex2D(param_tex,'' @ str_nat q @ '',tid)'') t)
                         (enumerate 0 (map par_name (parameters m))) t4;
                  t6 = re_sub (lit ''d0'') (\<lambda>_. []) t5;
                  t7 = re_sub space_pat (\<lambda>_. []) t6;
                  t8 = re_sub (lit ''pow'') (\<lambda>_. ''powf'') t7
              in Inr t8))"

text \<open>Lines 109-111 and 146, the loop over the reactions.\<close>

fun hazards :: "model \<Rightarrow> (nat \<times> reaction) list \<Rightarrow> string \<Rightarrow> exn + string" where
  "hazards m [] acc = Inr acc"
| "hazards m ((n, rxn) # rest) acc =
     (case hazard_rate m (rate rxn) of
        Inl e \<Rightarrow> Inl e
      | Inr t \<Rightarrow> hazards m rest (acc @ [CHR 0x09] @ ''h['' @ str_nat n @ ''] = '' @ t @ '';'' @ [CHR 0x0A]))"

section \<open>The simulator\<close>

subsection \<open>Arguments and attributes\<close>

text \<open>
  A vector-like argument is a vector or a matrix of floats (floats are reals here: the
  host code only copies and casts them). A mapping argument of \<open>initials\<close> has keys
  that are patterns or something else; one of \<open>param_values\<close> has names as keys.
\<close>

datatype nd = Vec "real list" | Mat "real list list"

fun len_nd :: "nd \<Rightarrow> nat" where
  "len_nd (Vec v) = length v"
| "len_nd (Mat a) = length a"

datatype ikey = Pattern string | Other string

datatype initials_arg = IMapping "(ikey \<times> real) list" | IArray nd

datatype params_arg = PDict "(string \<times> real) list" | PArray nd

text \<open>
  What \<open>_create_gpu_init\<close> is handed: the caller's floats, or the \<open>int32\<close> counts of the
  previous step.
\<close>

datatype host_array = Floats "real list list" | Ints "int32 list list"

text \<open>The arguments of the two kernels, as \<open>_run\<close> and \<open>_run_all\<close> pass them.\<close>

record one_step_launch =
  os_species_matrix :: "int32 list list"
  os_start_time :: "real list"
  os_end_time :: real
  os_last_time :: "real list"
  os_a_stride :: int
  os_block :: int
  os_grid :: int

record all_steps_launch =
  as_species_matrix :: "int32 list list"
  as_time_points :: "real list"
  as_n_results :: nat
  as_block :: int
  as_grid :: int

text \<open>
  The compiled module. The kernels are CUDA code of the template; a launch is a
  function of the parameter table bound to the texture, of the number of launches
  made before (the kernels draw random numbers) and of its arguments. It fails, or
  gives what the threads wrote: the cells of the result buffer (and of \<open>last_time\<close>).
\<close>

record kernel_module =
  Gillespie_one_step :: "real list list \<Rightarrow> nat \<Rightarrow> one_step_launch
                           \<Rightarrow> exn + ((nat \<Rightarrow> nat \<Rightarrow> int32) \<times> (nat \<Rightarrow> real))"
  Gillespie_all_steps :: "real list list \<Rightarrow> nat \<Rightarrow> all_steps_launch
                           \<Rightarrow> exn + (nat \<Rightarrow> nat \<Rightarrow> nat \<Rightarrow> int32)"

text \<open>
  pycuda as the simulator calls it, on the device of the context of the process: the
  compiler, and the texture upload.
\<close>

record cuda =
  SourceModule :: "string \<Rightarrow> exn + kernel_module"
  set_array :: "real list list \<Rightarrow> exn option"

text \<open>What the simulator does to the world outside, in order.\<close>

datatype effect =
    Wrote string
  | Compiled string
  | Uploaded "real list list"
  | LaunchedOne one_step_launch
  | LaunchedAll all_steps_launch

text \<open>
  The attributes of a \<open>GPUSimulator\<close> (\<open>self_x\<close> for \<open>self.x\<close> and \<open>self._x\<close>);
  \<open>self_param_tex\<close> is the array bound to \<open>_param_tex\<close>. The last field is no
  attribute: it is the record of the calls into pycuda and of the file written.
\<close>

record gpu_sim =
  self_model :: model
  self_verbose :: bool
  self_tout :: "real list list option"
  self_tspan :: "real list option"
  self_initials :: "initials_arg option"
  self_params :: "params_arg option"
  self_blocks :: "int option"
  self_threads :: "int option"
  self_total_threads :: int
  self_parameter_number :: nat
  self_species_number :: nat
  self_step_0 :: bool
  self_code :: string
  self_kernel :: "kernel_module option"
  self_param_tex :: "real list list option"
  self_device :: int
  trace :: "effect list"

text \<open>A method: it reads and updates the simulator, and returns or raises.\<close>

type_synonym 'a act = "gpu_sim \<Rightarrow> (exn + 'a) \<times> gpu_sim"

definition ret :: "'a \<Rightarrow> 'a act" where
  "ret x s = (Inr x, s)"

definition seq :: "'a act \<Rightarrow> ('a \<Rightarrow> 'b act) \<Rightarrow> 'b act" where
  "seq f g s = (case f s of (Inl e, s') \<Rightarrow> (Inl e, s') | (Inr x, s') \<Rightarrow> g x s')"

definition lift :: "exn + 'a \<Rightarrow> 'a act" where
  "lift r s = (r, s)"

subsection \<open>The property setters of \<open>Simulator\<close>\<close>

text \<open>\<open>base.py\<close>, lines 88-109.\<close>

definition set_initials :: "initials_arg option \<Rightarrow> unit act" where
  "set_initials new_initials s =
     (case new_initials of
        None \<Rightarrow> (Inr (), s\<lparr>self_initials := None\<rparr>)
      | Some (IMapping kvs) \<Rightarrow>
          (if list_ex (\<lambda>(k, v). case k of Pattern _ \<Rightarrow> False | Other _ \<Rightarrow> True) kvs
           then (Inl SimulatorException, s)
           else (Inr (), s\<lparr>self_initials := new_initials\<rparr>))
      | Some (IArray a) \<Rightarrow>
          (if len_nd a \<noteq> length (species (self_model s)) then (Inl ValueError, s)
           else (Inr (), s\<lparr>self_initials := new_initials\<rparr>)))"

text \<open>\<open>base.py\<close>, lines 175-194.\<close>

definition set_param_values :: "params_arg option \<Rightarrow> unit act" where
  "set_param_values new_params s =
     (case new_params of
        None \<Rightarrow> (Inr (), s\<lparr>self_params := None\<rparr>)
      | Some (PDict kvs) \<Rightarrow>
          (if list_ex (\<lambda>(k, v). k \<notin> set (map par_name (parameters (self_model s)))) kvs
           then (Inl IndexError, s)
           else (Inr (), s\<lparr>self_params := new_params\<rparr>))
      | Some (PArray a) \<Rightarrow>
          (if len_nd a \<noteq> length (parameters (self_model s)) then (Inl ValueError, s)
           else (Inr (), s\<lparr>self_params := new_params\<rparr>)))"

subsection \<open>Construction\<close>

text \<open>\<open>_pysb_to_cuda\<close>, lines 90-154.\<close>

definition pysb_to_cuda :: "template \<Rightarrow> gpu_sim \<Rightarrow> exn + string" where
  "pysb_to_cuda tmpl s =
     (case stoich_string (stoich_matrix (self_model s)) of
        Inl e \<Rightarrow> Inl e
      | Inr stoich_str \<Rightarrow>
          (case hazards (self_model s) (enumerate 0 (reactions (self_model s))) [] of
             Inl e \<Rightarrow> Inl e
           | Inr hazards_str \<Rightarrow>
               tmpl [(''n_species'', FInt (int (self_species_number s))),
                     (''n_params'', FInt (int (self_parameter_number s))),
                     (''n_reactions'', FInt (int (length (reactions (self_model s))))),
                     (''hazards'', FStr hazards_str),
                     (''stoch'', FStr stoich_str)]))"

text \<open>\<open>int(device)\<close> of a string: spaces around an optional sign and digits.\<close>

definition strip :: "string \<Rightarrow> string" where
  "strip t = rev (dropWhile is_space (rev (dropWhile is_space t)))"

definition int_of_string :: "string \<Rightarrow> exn + int" where
  "int_of_string t =
     (let u = strip t;
          neg = (take 1 u = ''-'');
          ds = (if take 1 u = ''-'' \<or> take 1 u = ''+'' then drop 1 u else u)
      in if ds \<noteq> [] \<and> list_all is_digit ds
         then Inr (if neg then - int (nat_of_digits ds) else int (nat_of_digits ds))
         else Inl ValueError)"

text \<open>
  \<open>GPUSimulator.__init__\<close>, lines 62-88, with \<open>Simulator.__init__\<close>, lines 69-79. The
  model is the one \<open>generate_equations\<close> has filled in; \<open>environ\<close> is the process
  environment; \<open>initials\<close> and \<open>param_values\<close> are the keyword arguments passed on
  to the base class.
\<close>

definition init :: "template \<Rightarrow> (string \<Rightarrow> string option) \<Rightarrow> model \<Rightarrow> bool \<Rightarrow> real list option
                      \<Rightarrow> initials_arg option \<Rightarrow> params_arg option \<Rightarrow> exn + gpu_sim" where
  "init tmpl environ m verbose tspan initials param_values =
     (let s0 = \<lparr>self_model = m, self_verbose = verbose, self_tout = None, self_tspan = tspan,
                self_initials = None, self_params = None,
                self_blocks = None, self_threads = None, self_total_threads = 0,
                self_parameter_number = length (parameters m),
                self_species_number = length (species m),
                self_step_0 = True, self_code = [], self_kernel = None,
                self_param_tex = None, self_device = 0, trace = []\<rparr>
      in case seq (set_initials initials) (\<lambda>_. set_param_values param_values) s0 of
           (Inl e, _) \<Rightarrow> Inl e
         | (Inr _, s1) \<Rightarrow>
             (case pysb_to_cuda tmpl s1 of
                Inl e \<Rightarrow> Inl e
              | Inr c \<Rightarrow>
                  (case environ ''CUDA_DEVICE'' of
                     None \<Rightarrow> Inr (s1\<lparr>self_code := c, self_device := 0\<rparr>)
                   | Some device \<Rightarrow>
                       (case int_of_string device of
                          Inl e \<Rightarrow> Inl e
                        | Inr d \<Rightarrow> Inr (s1\<lparr>self_code := c, self_device := d\<rparr>)))))"

subsection \<open>Host buffers\<close>

text \<open>The cast of a float stored into an \<open>int32\<close> array: towards zero.\<close>

definition cast_int32 :: "real \<Rightarrow> int32" where
  "cast_int32 x = word_of_int (if 0 \<le> x then \<lfloor>x\<rfloor> else - \<lfloor>- x\<rfloor>)"

fun rows_of :: "host_array \<Rightarrow> int32 list list" where
  "rows_of (Floats a) = map (map cast_int32) a"
| "rows_of (Ints a) = a"

text \<open>
  \<open>_setup\<close>, lines 411-416: the loop over \<open>i\<close> and \<open>j\<close> is the list of index pairs in
  row-major order. \<open>param[i][j] = params[i][j]\<close> raises \<open>IndexError\<close> when an index is
  out of range; the handler is \<open>pass\<close>, so the loop ends there and what is filled stays.
\<close>

fun fill_params :: "(nat \<times> nat) list \<Rightarrow> real list list \<Rightarrow> real list list \<Rightarrow> real list list" where
  "fill_params [] params param = param"
| "fill_params ((i, j) # ijs) params param =
     (if i < length params \<and> j < length (params ! i) \<and> i < length param \<and> j < length (param ! i)
      then fill_params ijs params (set2 param i j (params ! i ! j))
      else param)"

text \<open>\<open>_create_gpu_init\<close>, lines 432-434: the same loop without a handler.\<close>

fun fill_species :: "(nat \<times> nat) list \<Rightarrow> int32 list list \<Rightarrow> int32 list list
                       \<Rightarrow> exn + int32 list list" where
  "fill_species [] initials species_matrix = Inr species_matrix"
| "fill_species ((i, j) # ijs) initials species_matrix =
     (if i < length initials \<and> j < length (initials ! i)
         \<and> i < length species_matrix \<and> j < length (species_matrix ! i)
      then fill_species ijs initials (set2 species_matrix i j (initials ! i ! j))
      else Inl IndexError)"

text \<open>\<open>_create_gpu_init\<close>, lines 423-435. \<open>np.zeros\<close> refuses a negative dimension.\<close>

definition create_gpu_init :: "host_array \<Rightarrow> gpu_sim \<Rightarrow> exn + int32 list list" where
  "create_gpu_init initials s =
     (if self_total_threads s < 0 then Inl ValueError
      else fill_species
             (List.product [0 ..< length (rows_of initials)] [0 ..< self_species_number s])
             (rows_of initials)
             (zeros2 (nat (self_total_threads s)) (self_species_number s)))"

subsection \<open>Compilation and set-up\<close>

text \<open>
  \<open>_compile\<close>, lines 156-162, and \<open>compile_ssa\<close>, lines 375-389: \<open>SourceModule\<close> stands
  for the build and for the look-up of the texture and of the two kernels in it.
\<close>

definition compile :: "cuda \<Rightarrow> string \<Rightarrow> unit act" where
  "compile dev src s =
     (let s1 = (if self_verbose s then s\<lparr>trace := trace s @ [Wrote src]\<rparr> else s);
          s2 = s1\<lparr>trace := trace s1 @ [Compiled src]\<rparr>
      in case SourceModule dev src of
           Inl e \<Rightarrow> (Inl e, s2)
         | Inr k \<Rightarrow> (Inr (), s2\<lparr>self_kernel := Some k\<rparr>))"

text \<open>
  \<open>_setup\<close>, lines 407-421. \<open>set_array\<close> stands for \<open>_create_2D_array\<close>,
  \<open>_copy2D_host_to_array\<close> and \<open>_param_tex.set_array\<close>.
\<close>

definition priv_setup :: "cuda \<Rightarrow> real list list \<Rightarrow> unit act" where
  "priv_setup dev params s =
     (case compile dev (self_code s) s of
        (Inl e, s1) \<Rightarrow> (Inl e, s1)
      | (Inr _, s1) \<Rightarrow>
          (if self_total_threads s1 < 0 then (Inl ValueError, s1)
           else
             (let param = fill_params
                            (List.product [0 ..< length params] [0 ..< self_parameter_number s1])
                            params
                            (zeros2 (nat (self_total_threads s1)) (self_parameter_number s1));
                  s2 = s1\<lparr>trace := trace s1 @ [Uploaded param]\<rparr>
              in case set_array dev param of
                   Some e \<Rightarrow> (Inl e, s2)
                 | None \<Rightarrow> (Inr (), s2\<lparr>self_param_tex := Some param, self_step_0 := False\<rparr>))))"

subsection \<open>Launches\<close>

definition launch_count :: "gpu_sim \<Rightarrow> nat" where
  "launch_count s =
     length (filter (\<lambda>e. case e of LaunchedOne _ \<Rightarrow> True | LaunchedAll _ \<Rightarrow> True | _ \<Rightarrow> False)
               (trace s))"

definition texture :: "gpu_sim \<Rightarrow> real list list" where
  "texture s = (case self_param_tex s of None \<Rightarrow> [] | Some p \<Rightarrow> p)"

text \<open>
  The result buffers are \<open>managed_zeros\<close> of a fixed shape; after the launch they hold
  what the threads wrote.
\<close>

definition buffer2 :: "nat \<Rightarrow> nat \<Rightarrow> (nat \<Rightarrow> nat \<Rightarrow> int32) \<Rightarrow> int32 list list" where
  "buffer2 r c cells = map (\<lambda>i. map (\<lambda>j. cells i j) [0 ..< c]) [0 ..< r]"

definition buffer3 :: "nat \<Rightarrow> nat \<Rightarrow> nat \<Rightarrow> (nat \<Rightarrow> nat \<Rightarrow> nat \<Rightarrow> int32) \<Rightarrow> int32 list list list" where
  "buffer3 r t c cells = map (\<lambda>i. map (\<lambda>k. map (\<lambda>j. cells i k j) [0 ..< c]) [0 ..< t]) [0 ..< r]"

text \<open>
  Lines 193-216 of \<open>_run\<close>: the buffers, the launch of \<open>Gillespie_one_step\<close> and the
  synchronisation. The value is the device result buffer and \<open>last_time_gpu.get()\<close>.
\<close>

definition launch_one_step :: "real list \<Rightarrow> real \<Rightarrow> nat \<Rightarrow> int32 list list
                                 \<Rightarrow> (int32 list list \<times> real list) act" where
  "launch_one_step start_time end_time n_simulations species_matrix s =
     (case (self_kernel s, self_threads s, self_blocks s) of
        (Some k, Some t, Some b) \<Rightarrow>
          (let args = \<lparr>os_species_matrix = species_matrix, os_start_time = start_time,
                       os_end_time = end_time, os_last_time = replicate n_simulations 0,
                       os_a_stride = 4 * int (self_species_number s),
                       os_block = t, os_grid = b\<rparr>;
               s1 = s\<lparr>trace := trace s @ [LaunchedOne args]\<rparr>
           in case Gillespie_one_step k (texture s) (launch_count s) args of
                Inl e \<Rightarrow> (Inl e, s1)
              | Inr (cells, clock) \<Rightarrow>
                  (Inr (buffer2 (nat (self_total_threads s)) (self_species_number s) cells,
                        map clock [0 ..< n_simulations]), s1))
      | _ \<Rightarrow> (Inl TypeError, s))"

text \<open>\<open>_run\<close>, lines 164-222. What \<open>_print_verbose\<close> prints is left out.\<close>

definition priv_run :: "cuda \<Rightarrow> real list \<Rightarrow> real \<Rightarrow> real list list \<Rightarrow> host_array
                          \<Rightarrow> (int32 list list \<times> real list) act" where
  "priv_run dev start_time end_time params initials =
     seq (\<lambda>s. if self_step_0 s then priv_setup dev params s else (Inr (), s)) (\<lambda>_.
     seq (\<lambda>s. (create_gpu_init initials s, s)) (\<lambda>species_matrix.
     seq (launch_one_step start_time end_time (length params) species_matrix) (\<lambda>(result, last_time).
     ret (take (length params) result, take (length params) last_time))))"

text \<open>Lines 239-254 of \<open>_run_all\<close>: the launch of \<open>Gillespie_all_steps\<close>.\<close>

definition launch_all_steps :: "real list \<Rightarrow> int32 list list \<Rightarrow> (int32 list list list) act" where
  "launch_all_steps time_points species_matrix s =
     (case (self_kernel s, self_threads s, self_blocks s) of
        (Some k, Some t, Some b) \<Rightarrow>
          (let args = \<lparr>as_species_matrix = species_matrix, as_time_points = time_points,
                       as_n_results = length time_points, as_block = t, as_grid = b\<rparr>;
               s1 = s\<lparr>trace := trace s @ [LaunchedAll args]\<rparr>
           in case Gillespie_all_steps k (texture s) (launch_count s) args of
                Inl e \<Rightarrow> (Inl e, s1)
              | Inr cells \<Rightarrow>
                  (Inr (buffer3 (nat (self_total_threads s)) (length time_points)
                          (self_species_number s) cells), s1))
      | _ \<Rightarrow> (Inl TypeError, s))"

text \<open>
  \<open>_run_all\<close>, lines 224-257. \<open>timepoints\<close> is \<open>np.array(tspan)\<close>; of \<open>tspan = None\<close> it
  has no length.
\<close>

definition priv_run_all :: "cuda \<Rightarrow> real list option \<Rightarrow> real list list \<Rightarrow> host_array
                              \<Rightarrow> (int32 list list list) act" where
  "priv_run_all dev timepoints params initials =
     seq (\<lambda>s. if self_step_0 s then priv_setup dev params s else (Inr (), s)) (\<lambda>_.
     seq (lift (case timepoints of None \<Rightarrow> Inl TypeError | Some ts \<Rightarrow> Inr ts)) (\<lambda>ts.
     seq (\<lambda>s. (create_gpu_init initials s, s)) (\<lambda>species_matrix.
     seq (launch_all_steps ts species_matrix) (\<lambda>result.
     ret (take (length params) result)))))"

subsection \<open>\<open>SimulationResult\<close>\<close>

text \<open>
  A call \<open>f(*pos, **kws)\<close> of a function whose parameters all lack defaults binds the
  positional arguments to the first parameters and the keywords by name; too many
  positional arguments, an unknown keyword, a parameter bound twice or a parameter
  left unbound raise \<open>TypeError\<close>.
\<close>

definition bind_args :: "string list \<Rightarrow> 'v list \<Rightarrow> (string \<times> 'v) list \<Rightarrow> exn + (string \<times> 'v) list" where
  "bind_args ps pos kws =
     (if length ps < length pos then Inl TypeError
      else if list_ex (\<lambda>(k, v). k \<notin> set ps) kws then Inl TypeError
      else if list_ex (\<lambda>(k, v). k \<in> set (take (length pos) ps)) kws then Inl TypeError
      else if list_ex (\<lambda>p. p \<notin> set (map fst kws)) (drop (length pos) ps) then Inl TypeError
      else Inr (zip ps pos @ map (\<lambda>p. (p, the (map_of kws p))) (drop (length pos) ps)))"

text \<open>
  What \<open>SimulationResult.__init__\<close> reads of a simulator, and the objects the call
  sites pass.
\<close>

record simulator_view =
  class_name :: string
  view_tout :: "real list list option"
  view_model :: model

datatype pyarg =
    ASim simulator_view
  | ATimes "real list option list"
  | ACounts "int32 list list list"
  | AFloats "real list list list"

record simulation_result =
  res_squeeze :: bool
  res_simulator :: string
  res_tout :: "real list list option"
  res_y :: pyarg
  res_nsims :: nat
  res_model :: model

fun len_arg :: "pyarg \<Rightarrow> exn + nat" where
  "len_arg (ASim v) = Inl TypeError"
| "len_arg (ATimes t) = Inr (length t)"
| "len_arg (ACounts y) = Inr (length y)"
| "len_arg (AFloats y) = Inr (length y)"

text \<open>
  \<open>SimulationResult.__init__(self, simulator, trajectories)\<close>, \<open>base.py\<close> lines
  210-230: the attributes, and the first use of \<open>self.tout[n]\<close>. The arrays of
  observables and expressions built after that (numpy record arrays, sympy) are not
  part of the record.
\<close>

definition result_init :: "pyarg \<Rightarrow> pyarg \<Rightarrow> exn + simulation_result" where
  "result_init simulator trajectories =
     (case simulator of
        ASim v \<Rightarrow>
          (case len_arg trajectories of
             Inl e \<Rightarrow> Inl e
           | Inr n \<Rightarrow>
               (case view_tout v of
                  None \<Rightarrow> if 0 < n then Inl TypeError
                          else Inr \<lparr>res_squeeze = True, res_simulator = class_name v,
                                    res_tout = None, res_y = trajectories, res_nsims = n,
                                    res_model = view_model v\<rparr>
                | Some ts \<Rightarrow> if length ts < n then Inl IndexError
                          else Inr \<lparr>res_squeeze = True, res_simulator = class_name v,
                                    res_tout = Some ts, res_y = trajectories, res_nsims = n,
                                    res_model = view_model v\<rparr>))
      | _ \<Rightarrow> Inl AttributeError)"

definition SimulationResult :: "pyarg list \<Rightarrow> (string \<times> pyarg) list \<Rightarrow> exn + simulation_result" where
  "SimulationResult pos kws =
     (case bind_args [''simulator'', ''trajectories''] pos kws of
        Inl e \<Rightarrow> Inl e
      | Inr b \<Rightarrow> result_init (the (map_of b ''simulator'')) (the (map_of b ''trajectories'')))"

definition view :: "gpu_sim \<Rightarrow> simulator_view" where
  "view s = \<lparr>class_name = ''GPUSimulator'', view_tout = self_tout s, view_model = self_model s\<rparr>"

text \<open>\<open>bng_ssa.py\<close>, line 112: \<open>SimulationResult(self, tout=tout, trajectories=yout)\<close>.\<close>

definition bng_result :: "simulator_view \<Rightarrow> real list list \<Rightarrow> real list list list
                            \<Rightarrow> exn + simulation_result" where
  "bng_result self tout yout =
     SimulationResult [ASim self] [(''tout'', ATimes (map Some tout)), (''trajectories'', AFloats yout)]"

subsection \<open>\<open>run\<close> and \<open>run_one_step\<close>\<close>

text \<open>Lines 309-317 and 262-270: the nominal parameters for every trajectory.\<close>

definition nominal_param_values :: "int \<Rightarrow> (real list list) act" where
  "nominal_param_values number_sim s =
     (if number_sim < 0 then (Inl ValueError, s)
      else
        (let param_values =
               replicate (nat number_sim) (map par_value (parameters (self_model s)))
         in case set_param_values (Some (PArray (Mat param_values))) s of
              (Inl e, s1) \<Rightarrow> (Inl e, s1)
            | (Inr _, s1) \<Rightarrow> (Inr param_values, s1)))"

fun index_of :: "'a list \<Rightarrow> 'a \<Rightarrow> nat option" where
  "index_of [] x = None"
| "index_of (y # ys) x = (if y = x then Some 0 else map_option Suc (index_of ys x))"

text \<open>Lines 276-277 and 323-324; \<open>int(v)\<close> of a float rounds towards zero.\<close>

fun place_initials :: "(string \<times> real) list \<Rightarrow> string list \<Rightarrow> real list \<Rightarrow> exn + real list" where
  "place_initials [] names row = Inr row"
| "place_initials ((sp, v) # ics) names row =
     (case index_of names sp of
        None \<Rightarrow> Inl ValueError
      | Some k \<Rightarrow>
          place_initials ics names
            (row[k := real_of_int (if 0 \<le> v then \<lfloor>v\<rfloor> else - \<lfloor>- v\<rfloor>)]))"

text \<open>Lines 319-326 and 272-279; \<open>n\<close> is \<open>param_values.shape[0]\<close>.\<close>

definition default_initials :: "nat \<Rightarrow> (real list list) act" where
  "default_initials n s =
     (case place_initials (initial_conditions (self_model s)) (species (self_model s))
             (replicate (length (species (self_model s))) 0) of
        Inl e \<Rightarrow> (Inl e, s)
      | Inr row \<Rightarrow>
          (case set_initials (Some (IArray (Mat (replicate n row)))) s of
             (Inl e, s1) \<Rightarrow> (Inl e, s1)
           | (Inr _, s1) \<Rightarrow> (Inr (replicate n row), s1)))"

text \<open>
  Lines 335-345 and 287-297 on the simulator: \<open>_threads\<close> is assigned before the
  division can fail.
\<close>

definition configure :: "int option \<Rightarrow> nat \<Rightarrow> unit act" where
  "configure threads n s =
     (let s1 = s\<lparr>self_threads := Some (case threads of None \<Rightarrow> 128 | Some v \<Rightarrow> v)\<rparr>
      in case launch_geometry threads n of
           Inl e \<Rightarrow> (Inl e, s1)
         | Inr (t, b, tot) \<Rightarrow> (Inr (), s1\<lparr>self_blocks := Some b, self_total_threads := tot\<rparr>))"

text \<open>
  The assignment of an array given as rows to a target of shape \<open>(n, c)\<close>, with
  numpy's broadcasting of axes of length one.
\<close>

definition broadcast2 :: "nat \<Rightarrow> nat \<Rightarrow> 'a list list \<Rightarrow> exn + 'a list list" where
  "broadcast2 n c a =
     (case a of
        [] \<Rightarrow> if c = 0 then Inr (replicate n []) else Inl ValueError
      | r0 # _ \<Rightarrow>
          if \<not> list_all (\<lambda>r. length r = length r0) a then Inl ValueError
          else if (length a = n \<or> length a = 1) \<and> (length r0 = c \<or> length r0 = 1)
          then Inr (map (\<lambda>i. map (\<lambda>j. a ! (if length a = 1 then 0 else i)
                                        ! (if length r0 = 1 then 0 else j)) [0 ..< c]) [0 ..< n])
          else Inl ValueError)"

text \<open>Lines 349-353: \<open>final_result\<close> with the initial state in its first time slot.\<close>

definition initial_result :: "nat \<Rightarrow> nat \<Rightarrow> nat \<Rightarrow> real list list \<Rightarrow> exn + int32 list list list" where
  "initial_result n len_time c start_array =
     (if len_time = 0 then Inl IndexError
      else case broadcast2 n c start_array of
             Inl e \<Rightarrow> Inl e
           | Inr rows \<Rightarrow>
               Inr (map (\<lambda>r. (replicate len_time (replicate c 0))[0 := map cast_int32 r]) rows))"

text \<open>\<open>final_result[:, k, :] = result\<close>.\<close>

definition set_time_slot :: "int32 list list list \<Rightarrow> nat \<Rightarrow> int32 list list \<Rightarrow> int32 list list list" where
  "set_time_slot final_result k result = map2 (\<lambda>traj row. traj[k := row]) final_result result"

text \<open>Lines 356-368: one launch for every time point but the first.\<close>

fun run_steps :: "cuda \<Rightarrow> real list list \<Rightarrow> (nat \<times> real) list
                   \<Rightarrow> real list \<times> host_array \<times> int32 list list list
                   \<Rightarrow> (real list \<times> host_array \<times> int32 list list list) act" where
  "run_steps dev param_values [] st = ret st"
| "run_steps dev param_values ((k, t) # rest) (start_time, start_array, final_result) =
     seq (priv_run dev start_time t param_values start_array) (\<lambda>(result, end_time).
       run_steps dev param_values rest
         (end_time, Ints result, set_time_slot final_result k result))"

text \<open>\<open>run\<close>, lines 306-371, up to the construction of the result.\<close>

definition run_loop :: "cuda \<Rightarrow> real list option \<Rightarrow> real list list option \<Rightarrow> real list list option
                          \<Rightarrow> int \<Rightarrow> int option
                          \<Rightarrow> (real list option list \<times> int32 list list list) act" where
  "run_loop dev tspan param_values initials number_sim threads =
     seq (case param_values of None \<Rightarrow> nominal_param_values number_sim | Some pv \<Rightarrow> ret pv) (\<lambda>pv.
     seq (case initials of None \<Rightarrow> default_initials (length pv) | Some a \<Rightarrow> ret a) (\<lambda>ini.
     seq (lift (case tspan of None \<Rightarrow> Inl TypeError | Some ts \<Rightarrow> Inr ts)) (\<lambda>ts.
     seq (configure threads (length pv)) (\<lambda>_.
     seq (\<lambda>s. (initial_result (length pv) (length ts) (self_species_number s) ini, s)) (\<lambda>final_result.
     seq (run_steps dev pv (drop 1 (enumerate 0 ts))
            (replicate (length pv) (ts ! 0), Floats ini, final_result)) (\<lambda>(_, _, fr).
     ret (replicate (length pv) tspan, fr)))))))"

text \<open>\<open>run\<close>, line 373: \<open>return SimulationResult(self, tout, final_result)\<close>.\<close>

definition run :: "cuda \<Rightarrow> real list option \<Rightarrow> real list list option \<Rightarrow> real list list option
                     \<Rightarrow> int \<Rightarrow> int option \<Rightarrow> bool \<Rightarrow> simulation_result act" where
  "run dev tspan param_values initials number_sim threads verbose =
     seq (run_loop dev tspan param_values initials number_sim threads) (\<lambda>(tout, final_result) s.
       (SimulationResult [ASim (view s), ATimes tout, ACounts final_result] [], s))"

text \<open>\<open>run_one_step\<close>, lines 259-302, up to the construction of the result.\<close>

definition run_one_step_loop :: "cuda \<Rightarrow> real list option \<Rightarrow> real list list option
                          \<Rightarrow> real list list option \<Rightarrow> int \<Rightarrow> int option
                          \<Rightarrow> (real list option list \<times> int32 list list list) act" where
  "run_one_step_loop dev tspan param_values initials number_sim threads =
     seq (case param_values of None \<Rightarrow> nominal_param_values number_sim | Some pv \<Rightarrow> ret pv) (\<lambda>pv.
     seq (case initials of None \<Rightarrow> default_initials (length pv) | Some a \<Rightarrow> ret a) (\<lambda>ini.
     seq (configure threads (length pv)) (\<lambda>_.
     seq (priv_run_all dev tspan pv (Floats ini)) (\<lambda>result.
     ret (replicate (length pv) tspan, result)))))"

text \<open>\<open>run_one_step\<close>, line 304: \<open>return SimulationResult(self, tout, result)\<close>.\<close>

definition run_one_step :: "cuda \<Rightarrow> real list option \<Rightarrow> real list list option
                              \<Rightarrow> real list list option \<Rightarrow> int \<Rightarrow> int option
                              \<Rightarrow> simulation_result act" where
  "run_one_step dev tspan param_values initials number_sim threads =
     seq (run_one_step_loop dev tspan param_values initials number_sim threads) (\<lambda>(tout, result) s.
       (SimulationResult [ASim (view s), ATimes tout, ACounts result] [], s))"

subsection \<open>The life of a simulator\<close>

text \<open>
  After construction a simulator receives calls, in some order; a call that raises
  leaves the simulator as it is at that point.
\<close>

datatype call =
    Run "real list option" "real list list option" "real list list option" int "int option" bool
  | RunOneStep "real list option" "real list list option" "real list list option" int "int option"
  | PrivRun "real list" real "real list list" host_array
  | PrivRunAll "real list option" "real list list" host_array
  | SetInitials "initials_arg option"
  | SetParamValues "params_arg option"

fun exec :: "cuda \<Rightarrow> call \<Rightarrow> gpu_sim \<Rightarrow> gpu_sim" where
  "exec dev (Run tspan pv ini number_sim threads verbose) s =
     snd (run dev tspan pv ini number_sim threads verbose s)"
| "exec dev (RunOneStep tspan pv ini number_sim threads) s =
     snd (run_one_step dev tspan pv ini number_sim threads s)"
| "exec dev (PrivRun start_time end_time params ini) s =
     snd (priv_run dev start_time end_time params ini s)"
| "exec dev (PrivRunAll timepoints params ini) s =
     snd (priv_run_all dev timepoints params ini s)"
| "exec dev (SetInitials a) s = snd (set_initials a s)"
| "exec dev (SetParamValues a) s = snd (set_param_values a s)"

definition lifetime :: "cuda \<Rightarrow> call list \<Rightarrow> gpu_sim \<Rightarrow> gpu_sim" where
  "lifetime dev calls s = fold (exec dev) calls s"

text \<open>The number of times the kernel source went to the compiler.\<close>

definition compilations :: "gpu_sim \<Rightarrow> nat" where
  "compilations s = length (filter (\<lambda>e. case e of Compiled _ \<Rightarrow> True | _ \<Rightarrow> False) (trace s))"

section \<open>The device context\<close>

text \<open>
  Modelled from the documentation of pycuda, which is not part of the repository:
  \<open>import pycuda.autoinit\<close> (line 5) creates, when the module is imported, the context
  in which everything the process compiles, uploads and launches runs (it is the
  context synchronised at lines 216 and 254). The context is the one of
  \<open>pycuda.tools.make_default_context\<close>: if the environment variable \<open>CUDA_DEVICE\<close> is
  set, its integer value is the device number; otherwise, if the file \<open>.cuda_device\<close> is
  present in the home directory, the integer value of its contents is; otherwise the
  devices are tried in turn and the first on which a context can be made is taken. An
  error is raised when there is no device or no context can be made. The machine is
  given by \<open>usable\<close>: for each device number, whether a context can be made on it.
\<close>

fun first_usable :: "nat \<Rightarrow> bool list \<Rightarrow> nat option" where
  "first_usable k [] = None"
| "first_usable k (u # us) = (if u then Some k else first_usable (Suc k) us)"

definition make_context :: "bool list \<Rightarrow> int \<Rightarrow> exn + int" where
  "make_context usable devn =
     (if 0 \<le> devn \<and> devn < int (length usable) \<and> usable ! nat devn then Inr devn
      else Inl CudaError)"

definition make_default_context :: "(string \<Rightarrow> string option) \<Rightarrow> string option \<Rightarrow> bool list
                                      \<Rightarrow> exn + int" where
  "make_default_context environ cuda_device_file usable =
     (if usable = [] then Inl RuntimeError
      else
        case (case environ ''CUDA_DEVICE'' of
                Some t \<Rightarrow> Some t
              | None \<Rightarrow> cuda_device_file) of
          Some devn \<Rightarrow>
            (case int_of_string devn of
               Inl e \<Rightarrow> Inl e
             | Inr d \<Rightarrow> make_context usable d)
        | None \<Rightarrow>
            (case first_usable 0 usable of
               Some k \<Rightarrow> Inr (int k)
             | None \<Rightarrow> Inl RuntimeError))"

text \<open>
  The import of \<open>gpu_ssa.py\<close>: \<open>hardware d\<close> is pycuda on the device with number \<open>d\<close>;
  the process gets pycuda on the device of the default context.
\<close>

definition autoinit :: "(string \<Rightarrow> string option) \<Rightarrow> string option \<Rightarrow> bool list
                          \<Rightarrow> (int \<Rightarrow> cuda) \<Rightarrow> exn + cuda" where
  "autoinit environ cuda_device_file usable hardware =
     (case make_default_context environ cuda_device_file usable of
        Inl e \<Rightarrow> Inl e
      | Inr d \<Rightarrow> Inr (hardware d))"

section \<open>Observations on a simulator\<close>

text \<open>Rows \<open>n\<close> and beyond of a buffer hold zeros only.\<close>

definition padding_is_zero :: "nat \<Rightarrow> 'a::zero list list \<Rightarrow> bool" where
  "padding_is_zero n a = list_all (list_all (\<lambda>x. x = 0)) (drop n a)"

text \<open>The species buffers handed to the kernels, in the order of the launches.\<close>

definition species_buffers :: "gpu_sim \<Rightarrow> int32 list list list" where
  "species_buffers s =
     concat (map (\<lambda>e. case e of LaunchedOne a \<Rightarrow> [os_species_matrix a]
                              | LaunchedAll a \<Rightarrow> [as_species_matrix a] | _ \<Rightarrow> []) (trace s))"

text \<open>
  What a call leaves alone: the model and what was derived from it at construction,
  the device index, and, once \<open>_step_0\<close> is cleared, the flag and the number of
  compilations.
\<close>

definition stable :: "gpu_sim \<Rightarrow> gpu_sim \<Rightarrow> bool" where
  "stable s s' \<longleftrightarrow>
     self_model s' = self_model s
     \<and> self_species_number s' = self_species_number s
     \<and> self_parameter_number s' = self_parameter_number s
     \<and> self_code s' = self_code s
     \<and> self_device s' = self_device s
     \<and> (\<not> self_step_0 s \<longrightarrow> \<not> self_step_0 s' \<and> compilations s' = compilations s)"

definition pres :: "'a act \<Rightarrow> bool" where
  "pres f \<longleftrightarrow> (\<forall>s. stable s (snd (f s)))"

text \<open>A method makes no use of \<open>_device\<close>: with another index it does the same.\<close>

definition ignores_device :: "'a act \<Rightarrow> bool" where
  "ignores_device f \<longleftrightarrow>
     (\<forall>s d. f (s\<lparr>self_device := d\<rparr>) = (fst (f s), (snd (f s))\<lparr>self_device := d\<rparr>))"

section \<open>Example inputs\<close>

text \<open>The network \<open>2 A \<rightarrow> B\<close> with rate \<open>k*A**2\<close>.\<close>

definition m0 :: model where
  "m0 = \<lparr>reactions = [\<lparr>reactants = [0, 0], products = [1], rate = ''      k*__s0**2''\<rparr>],
         species = [''A()'', ''B()''],
         parameters = [\<lparr>par_name = ''k'', par_value = 1\<rparr>],
         expressions = [], observables = [],
         initial_conditions = [(''A()'', 100)]\<rparr>"

text \<open>A stand-in for the kernel template: the hazards and the stoichiometry rows.\<close>

definition tmpl0 :: template where
  "tmpl0 kw =
     (case (map_of kw ''hazards'', map_of kw ''stoch'', map_of kw ''n_species'') of
        (Some (FStr h), Some (FStr st), Some (FInt n)) \<Rightarrow>
          Inr (''#define N '' @ str_int n @ [CHR 0x0A] @ h @ st)
      | _ \<Rightarrow> Inl KeyError)"

text \<open>
  A device for the examples: the compiler succeeds; thread \<open>tid\<close> of either kernel
  moves one unit of species 0 to species 1 and stops the clock at the end time.
\<close>

definition k0 :: kernel_module where
  "k0 = \<lparr>Gillespie_one_step = (\<lambda>tex serial a.
            Inr (\<lambda>tid j. (if j = 0 then os_species_matrix a ! tid ! j - 1
                           else os_species_matrix a ! tid ! j + 1),
                 \<lambda>tid. os_end_time a)),
         Gillespie_all_steps = (\<lambda>tex serial a.
            Inr (\<lambda>tid k j. (if j = 0 then as_species_matrix a ! tid ! j - word_of_nat k
                             else as_species_matrix a ! tid ! j + word_of_nat k)))\<rparr>"

definition dev0 :: cuda where
  "dev0 = \<lparr>SourceModule = (\<lambda>src. Inr k0), set_array = (\<lambda>a. None)\<rparr>"

text \<open>Two simulators of \<open>m0\<close>: without \<open>CUDA_DEVICE\<close>, and with \<open>CUDA_DEVICE=1\<close>.\<close>

definition sim0 :: gpu_sim where
  "sim0 = projr (init tmpl0 (\<lambda>_. None) m0 False None None None)"

definition sim1 :: gpu_sim where
  "sim1 = projr (init tmpl0 (\<lambda>n. if n = ''CUDA_DEVICE'' then Some ''1'' else None)
                   m0 False None None None)"

text \<open>A device on which the build succeeds and the texture upload fails.\<close>

definition dev1 :: cuda where
  "dev1 = \<lparr>SourceModule = (\<lambda>src. Inr k0), set_array = (\<lambda>a. Some LaunchError)\<rparr>"

text \<open>A third simulator of \<open>m0\<close>: verbose, with a time span, a parameter override and
  \<open>CUDA_DEVICE\<close> set to \<open>" 2"\<close>.\<close>

definition simv :: gpu_sim where
  "simv = projr (init tmpl0 (\<lambda>n. if n = ''CUDA_DEVICE'' then Some '' 2'' else None)
                   m0 True (Some [0, 1]) None (Some (PDict [(''k'', 3)])))"

text \<open>\<open>sim0\<close> after the launch geometry for three trajectories and two threads a block.\<close>

definition sim0c :: gpu_sim where
  "sim0c = snd (configure (Some 2) 3 sim0)"




text \<open>A machine with two devices: on device 0 the upload works, on device 1 it fails.\<close>

definition hardware0 :: "int \<Rightarrow> cuda" where
  "hardware0 d = (if d = 0 then dev0 else dev1)"

section \<open>Properties\<close>

subsection \<open>Stoichiometry\<close>

lemma stoich_count_acc:
  "fold (\<lambda>k stoich. if j = k then stoich + 1 else stoich) ks (a::int) = a + int (count_list ks j)"
  by (induction ks arbitrary: a) auto

lemma stoich_count_eq: "stoich_count j ks = int (count_list ks j)"
  by (simp add: stoich_count_def stoich_count_acc)

lemma fill_row:
  assumes "i < length a" "length (a ! i) = c" "k \<le> c"
  shows "fold (\<lambda>j a. set2 a i j (g j)) [0 ..< k] a = a[i := map g [0 ..< k] @ drop k (a ! i)]"
  using assms(3)
proof (induction k)
  case 0
  then show ?case by simp
next
  case (Suc k)
  then have k: "k < c" by simp
  have "(map g [0..<k] @ drop k (a ! i))[k := g k] = map g [0..<k] @ g k # drop (Suc k) (a ! i)"
    using k assms(2) by (simp add: list_update_append Cons_nth_drop_Suc [symmetric] )
  with Suc assms(1) k show ?case
    by (simp add: set2_def)
qed

lemma fill_row_full:
  assumes "i < length a" "length (a ! i) = c"
  shows "fold (\<lambda>j a. set2 a i j (g j)) [0 ..< c] a = a[i := map g [0 ..< c]]"
  using fill_row [OF assms, of c g] assms by simp

lemma fill_rows:
  assumes "length a = r" "\<forall>i<r. length (a ! i) = c" "k \<le> r"
  shows "fold (\<lambda>i a. fold (\<lambda>j a. set2 a i j (g i j)) [0 ..< c] a) [0 ..< k] a
         = map (\<lambda>i. map (g i) [0 ..< c]) [0 ..< k] @ drop k a"
  using assms(3)
proof (induction k)
  case 0
  then show ?case by simp
next
  case (Suc k)
  let ?b = "map (\<lambda>i. map (g i) [0 ..< c]) [0 ..< k] @ drop k a"
  from Suc have k: "k < r" by simp
  have len: "k < length ?b" using k assms(1) by simp
  have row: "?b ! k = a ! k" using k assms(1) by (simp add: nth_append)
  have "fold (\<lambda>j a. set2 a k j (g k j)) [0 ..< c] ?b = ?b[k := map (g k) [0 ..< c]]"
    by (rule fill_row_full [OF len]) (use row assms(2) k in simp)
  also have "\<dots> = map (\<lambda>i. map (g i) [0 ..< c]) [0 ..< Suc k] @ drop (Suc k) a"
    using k assms(1) by (simp add: list_update_append Cons_nth_drop_Suc [symmetric])
  finally show ?case using Suc k by simp
qed

lemma fill_side_eq:
  "fill_side side m =
     map (\<lambda>i. map (\<lambda>j. word_of_int (int (count_list (side (reactions m ! i)) (int j))))
                 [0 ..< length (species m)]) [0 ..< length (reactions m)]"
proof -
  let ?r = "length (reactions m)" and ?c = "length (species m)"
  have "fill_side side m =
      map (\<lambda>i. map (\<lambda>j. word_of_int (stoich_count (int j) (side (reactions m ! i)))) [0 ..< ?c]) [0 ..< ?r]
        @ drop ?r (zeros2 ?r ?c)"
    unfolding fill_side_def
    by (rule fill_rows [where r = ?r]) (simp_all add: zeros2_def)
  then show ?thesis by (simp add: zeros2_def stoich_count_eq)
qed

lemma stoich_matrix_nth:
  assumes "i < length (reactions m)" and "j < length (species m)"
  shows "stoich_matrix m ! j ! i =
           (word_of_int (int (count_list (products (reactions m ! i)) (int j))
                         - int (count_list (reactants (reactions m ! i)) (int j))) :: int32)"
  using assms
  by (simp add: stoich_matrix_def transpose2_def add2_def rhs_def lhs_def fill_side_eq)

lemma sint_int32_small:
  fixes x :: int
  assumes "- (2 ^ 31) \<le> x" and "x < 2 ^ 31"
  shows "sint (word_of_int x :: int32) = x"
  using assms by (simp add: sint_sbintrunc' signed_take_bit_int_eq_self)

text \<open>
  C1. For a model whose reactions mention only species indices in range, the entry of the
  stoichiometry matrix for species \<open>j\<close> and reaction \<open>i\<close> is the number of occurrences
  of \<open>j\<close> among the products of reaction \<open>i\<close> minus the number among its reactants:
  as an \<open>int32\<close> always, and read as a signed integer whenever both counts fit. The
  builder is a function of the model alone (\<open>stoich_matrix\<close> takes nothing else and
  returns nothing else), and the entry is given by the reaction list.
\<close>

theorem stoich_matrix_net_change:
  assumes "indices_in_range m" and "i < length (reactions m)" and "j < length (species m)"
  shows "stoich_matrix m ! j ! i =
           word_of_int (int (count_list (products (reactions m ! i)) (int j))
                        - int (count_list (reactants (reactions m ! i)) (int j)))
       \<and> (count_list (products (reactions m ! i)) (int j) < 2 ^ 31
          \<and> count_list (reactants (reactions m ! i)) (int j) < 2 ^ 31
          \<longrightarrow> sint (stoich_matrix m ! j ! i) =
                int (count_list (products (reactions m ! i)) (int j))
                - int (count_list (reactants (reactions m ! i)) (int j)))"
proof -
  let ?p = "int (count_list (products (reactions m ! i)) (int j))"
  let ?r = "int (count_list (reactants (reactions m ! i)) (int j))"
  have e: "stoich_matrix m ! j ! i = word_of_int (?p - ?r)"
    by (rule stoich_matrix_nth [OF assms(2,3)])
  have "sint (word_of_int (?p - ?r) :: int32) = ?p - ?r" if "?p < 2 ^ 31" "?r < 2 ^ 31"
    by (rule sint_int32_small) (use that in simp_all)
  with e show ?thesis by simp
qed

theorem stoich_matrix_net_change_witness:
  "indices_in_range m0 \<and> 0 < length (reactions m0) \<and> 0 < length (species m0)
   \<and> sint (stoich_matrix m0 ! 0 ! 0) = - 2 \<and> sint (stoich_matrix m0 ! 1 ! 0) = 1"
proof -
  have r: "indices_in_range m0" by (simp add: indices_in_range_def m0_def)
  have i: "0 < length (reactions m0)" by (simp add: m0_def)
  have j0: "0 < length (species m0)" by (simp add: m0_def)
  have j1: "1 < length (species m0)" by (simp add: m0_def)
  from stoich_matrix_net_change [OF r i j0] stoich_matrix_net_change [OF r i j1]
  show ?thesis using r i j0 by (simp add: m0_def)
qed

subsection \<open>Integer powers\<close>

text \<open>
  C2. The claim: every power \<open>species**p\<close> of a rate, \<open>p \<ge> 2\<close>, is expanded into
  \<open>species*(species-1)*...*(species-(p-1))\<close>, also when the rate holds several distinct
  powers. The code does so for the first power only and writes the expansion of the
  first power over every other one: in the rate of \<open>2 A + 3 B \<rightarrow> ...\<close> the factor
  \<open>__s1**3\<close> becomes \<open>__s0*(__s0-1)\<close>, not \<open>__s1*(__s1-1)*(__s1-2)\<close>.
\<close>

theorem expand_powers_two_powers:
  "expand_powers ''k*__s0**2*__s1**3'' = ''k*__s0*(__s0-1)*__s0*(__s0-1)''"
  by code_simp

text \<open>A rate with one power is expanded as the claim says.\<close>

lemma expand_powers_one_power:
  "expand_powers ''k*__s0**3'' = ''k*__s0*(__s0-1)*(__s0-2)''"
  by code_simp

subsection \<open>What the methods leave alone\<close>

lemma stable_refl: "stable s s"
  by (simp add: stable_def)

lemma stable_trans: "stable s s' \<Longrightarrow> stable s' s'' \<Longrightarrow> stable s s''"
  by (auto simp: stable_def)

lemma pres_ret: "pres (ret x)"
  by (simp add: pres_def ret_def stable_refl)

lemma pres_lift: "pres (lift r)"
  by (simp add: pres_def lift_def stable_refl)

lemma pres_pure: "pres (\<lambda>s. (h s, s))"
  by (simp add: pres_def stable_refl)

lemma pres_seq:
  assumes "pres f" and "\<And>x. pres (g x)"
  shows "pres (seq f g)"
  unfolding pres_def
proof
  fix s
  show "stable s (snd (seq f g s))"
  proof (cases "f s")
    case (Pair r s')
    have a: "stable s s'" using assms(1) Pair by (auto simp: pres_def dest: spec [of _ s])
    show ?thesis
    proof (cases r)
      case (Inl e)
      with Pair a show ?thesis by (simp add: seq_def)
    next
      case (Inr x)
      have "stable s' (snd (g x s'))" using assms(2) by (simp add: pres_def)
      with a Pair Inr show ?thesis by (auto simp: seq_def intro: stable_trans)
    qed
  qed
qed

lemma compilations_append:
  "compilations (s\<lparr>trace := trace s @ [e]\<rparr>)
     = compilations s + (case e of Compiled _ \<Rightarrow> 1 | _ \<Rightarrow> 0)"
  by (cases e) (simp_all add: compilations_def)

lemma pres_set_initials: "pres (set_initials a)"
  by (auto simp: pres_def set_initials_def stable_def compilations_def
           split: option.splits initials_arg.splits)

lemma pres_set_param_values: "pres (set_param_values a)"
  by (auto simp: pres_def set_param_values_def stable_def compilations_def
           split: option.splits params_arg.splits)

lemma pres_configure: "pres (configure t n)"
  by (auto simp: pres_def configure_def stable_def compilations_def Let_def
           split: sum.splits prod.splits)

lemma pres_nominal: "pres (nominal_param_values n)"
  unfolding pres_def
proof
  fix s :: gpu_sim
  let ?a = "Some (PArray (Mat (replicate (nat n) (map par_value (parameters (self_model s))))))"
  have "stable s s'" if "set_param_values ?a s = (r, s')" for r s'
    using pres_set_param_values [of ?a] that by (auto simp: pres_def dest: spec [of _ s])
  then show "stable s (snd (nominal_param_values n s))"
    by (auto simp: nominal_param_values_def stable_refl Let_def split: prod.splits sum.splits)
qed

lemma pres_default_initials: "pres (default_initials n)"
  unfolding pres_def
proof
  fix s :: gpu_sim
  have "stable s s'" if "set_initials a s = (r, s')" for a r s'
    using pres_set_initials [of a] that by (auto simp: pres_def dest: spec [of _ s])
  then show "stable s (snd (default_initials n s))"
    by (auto simp: default_initials_def stable_refl split: prod.splits sum.splits)
qed

lemma pres_when_setup: "pres (\<lambda>s. if self_step_0 s then priv_setup dev params s else (Inr (), s))"
  by (auto simp: pres_def stable_def priv_setup_def compile_def compilations_def Let_def
           split: sum.splits option.splits prod.splits)

lemma pres_launch_one_step: "pres (launch_one_step a b c d)"
  by (auto simp: pres_def stable_def launch_one_step_def compilations_def Let_def
           split: sum.splits option.splits prod.splits)

lemma pres_launch_all_steps: "pres (launch_all_steps a b)"
  by (auto simp: pres_def stable_def launch_all_steps_def compilations_def Let_def
           split: sum.splits option.splits prod.splits)

lemma pres_priv_run: "pres (priv_run dev a b c d)"
  unfolding priv_run_def
  by (intro pres_seq pres_when_setup pres_pure pres_launch_one_step)
     (auto simp: pres_ret split: prod.splits)

lemma pres_priv_run_all: "pres (priv_run_all dev a b c)"
  unfolding priv_run_all_def
  by (intro pres_seq pres_when_setup pres_pure pres_launch_all_steps pres_lift pres_ret)

lemma pres_run_steps: "pres (run_steps dev pv ks st)"
proof (induction ks arbitrary: st)
  case Nil
  show ?case by (simp add: pres_ret)
next
  case (Cons kt ks)
  obtain k t where kt: "kt = (k, t)" by (cases kt)
  obtain a b c where st: "st = (a, b, c)" by (cases st)
  show ?case unfolding kt st run_steps.simps
    by (rule pres_seq [OF pres_priv_run]) (auto simp: Cons.IH split: prod.splits)
qed

lemma pres_run_loop: "pres (run_loop dev tspan pv ini ns thr)"
  unfolding run_loop_def
  by (intro pres_seq pres_configure pres_pure pres_lift)
     (auto simp: pres_ret pres_nominal pres_default_initials pres_run_steps
           split: option.splits prod.splits)

lemma pres_run: "pres (run dev tspan pv ini ns thr vb)"
  unfolding run_def
  by (rule pres_seq [OF pres_run_loop]) (auto simp: pres_def stable_refl split: prod.splits)

lemma pres_run_one_step_loop: "pres (run_one_step_loop dev tspan pv ini ns thr)"
  unfolding run_one_step_loop_def
  by (intro pres_seq pres_configure pres_priv_run_all)
     (auto simp: pres_ret pres_nominal pres_default_initials split: option.splits)

lemma pres_run_one_step: "pres (run_one_step dev tspan pv ini ns thr)"
  unfolding run_one_step_def
  by (rule pres_seq [OF pres_run_one_step_loop]) (auto simp: pres_def stable_refl split: prod.splits)

lemma stable_exec: "stable s (exec dev c s)"
  using pres_run pres_run_one_step pres_priv_run pres_priv_run_all
        pres_set_initials pres_set_param_values
  by (cases c) (simp_all add: pres_def)

lemma stable_lifetime: "stable s (lifetime dev calls s)"
  unfolding lifetime_def
proof (induction calls arbitrary: s)
  case Nil
  show ?case by (simp add: stable_refl)
next
  case (Cons c calls)
  have "stable s (exec dev c s)" by (rule stable_exec)
  moreover have "stable (exec dev c s) (fold (exec dev) calls (exec dev c s))" by (rule Cons.IH)
  ultimately show ?case by (auto intro: stable_trans)
qed

lemma ign_ret: "ignores_device (ret x)"
  by (simp add: ignores_device_def ret_def)

lemma ign_lift: "ignores_device (lift r)"
  by (simp add: ignores_device_def lift_def)

lemma ign_seq:
  assumes "ignores_device f" and "\<And>x. ignores_device (g x)"
  shows "ignores_device (seq f g)"
  unfolding ignores_device_def
proof (intro allI)
  fix s d
  obtain r s' where fs: "f s = (r, s')" by (cases "f s")
  have fd: "f (s\<lparr>self_device := d\<rparr>) = (r, s'\<lparr>self_device := d\<rparr>)"
    using assms(1) fs by (simp add: ignores_device_def)
  show "seq f g (s\<lparr>self_device := d\<rparr>) = (fst (seq f g s), (snd (seq f g s))\<lparr>self_device := d\<rparr>)"
  proof (cases r)
    case (Inl e)
    with fs fd show ?thesis by (simp add: seq_def)
  next
    case (Inr x)
    have "g x (s'\<lparr>self_device := d\<rparr>) = (fst (g x s'), (snd (g x s'))\<lparr>self_device := d\<rparr>)"
      using assms(2) by (simp add: ignores_device_def)
    with fs fd Inr show ?thesis by (simp add: seq_def)
  qed
qed

lemma ign_set_initials: "ignores_device (set_initials a)"
  by (auto simp: ignores_device_def set_initials_def split: option.splits initials_arg.splits)

lemma ign_set_param_values: "ignores_device (set_param_values a)"
  by (auto simp: ignores_device_def set_param_values_def split: option.splits params_arg.splits)

lemma ign_configure: "ignores_device (configure t n)"
  by (auto simp: ignores_device_def configure_def Let_def split: sum.splits prod.splits)

lemma ign_nominal: "ignores_device (nominal_param_values n)"
  unfolding ignores_device_def
proof (intro allI)
  fix s :: gpu_sim and d
  let ?a = "Some (PArray (Mat (replicate (nat n) (map par_value (parameters (self_model s))))))"
  have "set_param_values ?a (s\<lparr>self_device := d\<rparr>)
        = (fst (set_param_values ?a s), (snd (set_param_values ?a s))\<lparr>self_device := d\<rparr>)"
    using ign_set_param_values by (simp add: ignores_device_def)
  then show "nominal_param_values n (s\<lparr>self_device := d\<rparr>)
        = (fst (nominal_param_values n s), (snd (nominal_param_values n s))\<lparr>self_device := d\<rparr>)"
    by (cases "set_param_values ?a s")
       (auto simp: nominal_param_values_def Let_def split: sum.splits)
qed

lemma ign_default_initials: "ignores_device (default_initials n)"
  unfolding ignores_device_def
proof (intro allI)
  fix s :: gpu_sim and d
  have a: "set_initials a (s\<lparr>self_device := d\<rparr>)
        = (fst (set_initials a s), (snd (set_initials a s))\<lparr>self_device := d\<rparr>)" for a
    using ign_set_initials by (simp add: ignores_device_def)
  show "default_initials n (s\<lparr>self_device := d\<rparr>)
        = (fst (default_initials n s), (snd (default_initials n s))\<lparr>self_device := d\<rparr>)"
  proof (cases "place_initials (initial_conditions (self_model s)) (species (self_model s))
             (replicate (length (species (self_model s))) 0)")
    case (Inl e)
    then show ?thesis by (simp add: default_initials_def)
  next
    case (Inr row)
    then show ?thesis
      using a [of "Some (IArray (Mat (replicate n row)))"]
      by (cases "set_initials (Some (IArray (Mat (replicate n row)))) s")
         (auto simp: default_initials_def split: sum.splits)
  qed
qed

lemma ign_when_setup:
  "ignores_device (\<lambda>s. if self_step_0 s then priv_setup dev params s else (Inr (), s))"
  by (auto simp: ignores_device_def priv_setup_def compile_def Let_def
           split: sum.splits option.splits prod.splits)

lemma ign_create: "ignores_device (\<lambda>s. (create_gpu_init ini s, s))"
  by (simp add: ignores_device_def create_gpu_init_def)

lemma ign_launch_one_step: "ignores_device (launch_one_step a b c d)"
  by (auto simp: ignores_device_def launch_one_step_def launch_count_def texture_def Let_def
           split: sum.splits option.splits prod.splits)

lemma ign_launch_all_steps: "ignores_device (launch_all_steps a b)"
  by (auto simp: ignores_device_def launch_all_steps_def launch_count_def texture_def Let_def
           split: sum.splits option.splits prod.splits)

lemma ign_priv_run: "ignores_device (priv_run dev a b c d)"
  unfolding priv_run_def
  by (intro ign_seq ign_when_setup ign_create ign_launch_one_step)
     (auto simp: ign_ret split: prod.splits)

lemma ign_priv_run_all: "ignores_device (priv_run_all dev a b c)"
  unfolding priv_run_all_def
  by (intro ign_seq ign_when_setup ign_create ign_launch_all_steps ign_lift ign_ret)

lemma ign_run_steps: "ignores_device (run_steps dev pv ks st)"
proof (induction ks arbitrary: st)
  case Nil
  show ?case by (simp add: ign_ret)
next
  case (Cons kt ks)
  obtain k t where kt: "kt = (k, t)" by (cases kt)
  obtain a b c where st: "st = (a, b, c)" by (cases st)
  show ?case unfolding kt st run_steps.simps
    by (rule ign_seq [OF ign_priv_run]) (auto simp: Cons.IH split: prod.splits)
qed

lemma ign_initial_result:
  "ignores_device (\<lambda>s. (initial_result n t (self_species_number s) ini, s))"
  by (simp add: ignores_device_def)

lemma ign_run_loop: "ignores_device (run_loop dev tspan pv ini ns thr)"
  unfolding run_loop_def
  by (intro ign_seq ign_configure ign_initial_result ign_lift)
     (auto simp: ign_ret ign_nominal ign_default_initials ign_run_steps
           split: option.splits prod.splits)

lemma ign_result: "ignores_device (\<lambda>s. (SimulationResult [ASim (view s), b, c] kws, s))"
  by (simp add: ignores_device_def view_def)

lemma ign_run: "ignores_device (run dev tspan pv ini ns thr vb)"
  unfolding run_def
  by (rule ign_seq [OF ign_run_loop]) (auto simp: ign_result split: prod.splits)

lemma ign_run_one_step_loop: "ignores_device (run_one_step_loop dev tspan pv ini ns thr)"
  unfolding run_one_step_loop_def
  by (intro ign_seq ign_configure ign_priv_run_all)
     (auto simp: ign_ret ign_nominal ign_default_initials split: option.splits)

lemma ign_run_one_step: "ignores_device (run_one_step dev tspan pv ini ns thr)"
  unfolding run_one_step_def
  by (rule ign_seq [OF ign_run_one_step_loop]) (auto simp: ign_result split: prod.splits)

lemma exec_ignores_device:
  "exec dev c (s\<lparr>self_device := d\<rparr>) = (exec dev c s)\<lparr>self_device := d\<rparr>"
  using ign_run ign_run_one_step ign_priv_run ign_priv_run_all
        ign_set_initials ign_set_param_values
  by (cases c) (simp_all add: ignores_device_def)

lemma init_fields:
  assumes "init tmpl environ m vb ts ia pa = Inr s"
  shows "self_model s = m \<and> self_species_number s = length (species m)
         \<and> self_parameter_number s = length (parameters m) \<and> self_step_0 s
         \<and> pysb_to_cuda tmpl s = Inr (self_code s)
         \<and> (case environ ''CUDA_DEVICE'' of None \<Rightarrow> self_device s = 0
             | Some t \<Rightarrow> int_of_string t = Inr (self_device s))"
  using assms
  by (auto simp: init_def seq_def set_initials_def set_param_values_def pysb_to_cuda_def Let_def
           split: sum.splits option.splits prod.splits initials_arg.splits params_arg.splits
                  if_splits)

lemma pysb_to_cuda_stable:
  assumes "stable s s'"
  shows "pysb_to_cuda tmpl s' = pysb_to_cuda tmpl s"
proof -
  from assms have "self_model s' = self_model s"
    and "self_species_number s' = self_species_number s"
    and "self_parameter_number s' = self_parameter_number s"
    by (simp_all add: stable_def)
  then show ?thesis unfolding pysb_to_cuda_def by (simp cong: sum.case_cong)
qed

subsection \<open>Buffers\<close>

lemma set2_length [simp]: "length (set2 a i j v) = length a"
  by (simp add: set2_def)

lemma drop_set2: "i < n \<Longrightarrow> drop n (set2 a i j v) = drop n a"
  by (simp add: set2_def drop_update_cancel)

lemma fill_params_padding:
  "length (fill_params ijs params param) = length param
   \<and> drop (length params) (fill_params ijs params param) = drop (length params) param"
proof (induction ijs arbitrary: param)
  case Nil
  show ?case by simp
next
  case (Cons ij ijs)
  obtain i j where ij: "ij = (i, j)" by (cases ij)
  show ?case using Cons.IH [of "set2 param i j (params ! i ! j)"]
    by (simp add: ij drop_set2)
qed

lemma fill_species_padding:
  "fill_species ijs ini sm = Inr m \<Longrightarrow>
     length m = length sm \<and> drop (length ini) m = drop (length ini) sm"
proof (induction ijs arbitrary: sm)
  case Nil
  then show ?case by simp
next
  case (Cons ij ijs)
  obtain i j where ij: "ij = (i, j)" by (cases ij)
  from Cons.prems have ok: "i < length ini"
    and r: "fill_species ijs ini (set2 sm i j (ini ! i ! j)) = Inr m"
    by (auto simp: ij split: if_splits)
  from Cons.IH [OF r] ok show ?case by (simp add: drop_set2)
qed

lemma zeros2_padding: "padding_is_zero n (zeros2 r c)"
  by (simp add: padding_is_zero_def zeros2_def list_all_iff in_set_dropD [THEN in_set_replicate [THEN iffD1]])

lemma create_gpu_init_padding:
  assumes "create_gpu_init ini s = Inr m"
  shows "length m = nat (self_total_threads s) \<and> padding_is_zero (length (rows_of ini)) m"
proof -
  from assms have f: "fill_species
       (List.product [0 ..< length (rows_of ini)] [0 ..< self_species_number s])
       (rows_of ini) (zeros2 (nat (self_total_threads s)) (self_species_number s)) = Inr m"
    by (simp add: create_gpu_init_def split: if_splits)
  from fill_species_padding [OF f] zeros2_padding
  show ?thesis by (simp add: padding_is_zero_def zeros2_def)
qed

lemma padding_mono: "padding_is_zero n a \<Longrightarrow> n \<le> k \<Longrightarrow> padding_is_zero k a"
proof -
  assume a: "padding_is_zero n a" and le: "n \<le> k"
  have "drop k a = drop (k - n) (drop n a)" using le by simp
  then have "set (drop k a) \<subseteq> set (drop n a)" by (metis set_drop_subset)
  with a show ?thesis by (auto simp: padding_is_zero_def list_all_iff)
qed

lemma priv_setup_padding:
  assumes "fst (priv_setup dev params s) = Inr u"
  shows "\<exists>p. self_param_tex (snd (priv_setup dev params s)) = Some p
            \<and> length p = nat (self_total_threads s)
            \<and> padding_is_zero (length params) p
            \<and> \<not> self_step_0 (snd (priv_setup dev params s))"
proof -
  let ?s1 = "snd (compile dev (self_code s) s)"
  let ?p = "fill_params (List.product [0 ..< length params] [0 ..< self_parameter_number ?s1])
              params (zeros2 (nat (self_total_threads ?s1)) (self_parameter_number ?s1))"
  have t: "self_total_threads ?s1 = self_total_threads s"
    by (simp add: compile_def Let_def split: sum.splits)
  from assms have "self_param_tex (snd (priv_setup dev params s)) = Some ?p
      \<and> \<not> self_step_0 (snd (priv_setup dev params s))"
    by (auto simp: priv_setup_def Let_def split: sum.splits prod.splits option.splits if_splits)
  moreover have "length ?p = nat (self_total_threads s)"
    using fill_params_padding [of _ params] by (simp add: t zeros2_def)
  moreover have "padding_is_zero (length params) ?p"
    using fill_params_padding [of _ params] zeros2_padding [of "length params"]
    by (simp add: padding_is_zero_def)
  ultimately show ?thesis by blast
qed

lemma priv_run_result:
  assumes "fst (priv_run dev st et params ini s) = Inr (res, cur)"
  defines "s1 \<equiv> (if self_step_0 s then snd (priv_setup dev params s) else s)"
  shows "\<exists>sm buf lt. create_gpu_init ini s1 = Inr sm
            \<and> fst (launch_one_step st et (length params) sm s1) = Inr (buf, lt)
            \<and> res = take (length params) buf \<and> cur = take (length params) lt"
  using assms(1) unfolding priv_run_def seq_def s1_def ret_def
  by (auto split: prod.splits sum.splits if_splits)

lemma priv_run_all_result:
  assumes "fst (priv_run_all dev tp params ini s) = Inr res"
  defines "s1 \<equiv> (if self_step_0 s then snd (priv_setup dev params s) else s)"
  shows "\<exists>ts sm buf. tp = Some ts \<and> create_gpu_init ini s1 = Inr sm
            \<and> fst (launch_all_steps ts sm s1) = Inr buf
            \<and> res = take (length params) buf"
  using assms(1) unfolding priv_run_all_def seq_def s1_def ret_def lift_def
  by (auto split: prod.splits sum.splits if_splits option.splits)

subsection \<open>Result construction\<close>

lemma three_positional: "SimulationResult [a, b, c] [] = Inl TypeError"
  by (simp add: SimulationResult_def bind_args_def)

lemma seq_fst_cases:
  "fst (f s) = Inr x \<Longrightarrow> seq f g s = g x (snd (f s))"
  "fst (f s) = Inl e \<Longrightarrow> seq f g s = (Inl e, snd (f s))"
  by (cases "f s"; simp add: seq_def)+

text \<open>
  C3. Whenever \<open>run\<close> or \<open>run_one_step\<close> completes its simulation loop it calls
  \<open>SimulationResult(self, tout, trajectories)\<close> with three positional arguments, while
  \<open>SimulationResult.__init__\<close> takes two: the call raises \<open>TypeError\<close>, so neither
  method ever returns a result. The call of \<open>bng_ssa.py\<close>, with the keyword \<open>tout\<close>,
  raises \<open>TypeError\<close> as well.
\<close>

theorem result_construction_raises:
  "(fst (run_loop dev tspan pv ini ns thr s) = Inr x \<longrightarrow>
      run dev tspan pv ini ns thr vb s
        = (Inl TypeError, snd (run_loop dev tspan pv ini ns thr s)))
   \<and> (fst (run_one_step_loop dev tspan pv ini ns thr s) = Inr y \<longrightarrow>
      run_one_step dev tspan pv ini ns thr s
        = (Inl TypeError, snd (run_one_step_loop dev tspan pv ini ns thr s)))
   \<and> fst (run dev tspan pv ini ns thr vb s) \<noteq> Inr r
   \<and> fst (run_one_step dev tspan pv ini ns thr s) \<noteq> Inr r
   \<and> bng_result self tout yout = Inl TypeError"
proof -
  have a: "run dev tspan pv ini ns thr vb s
        = (Inl TypeError, snd (run_loop dev tspan pv ini ns thr s))"
    if "fst (run_loop dev tspan pv ini ns thr s) = Inr x" for x
    unfolding run_def
    by (simp add: seq_fst_cases(1) [where f = "run_loop dev tspan pv ini ns thr", OF that]
                  three_positional split: prod.splits)
  have b: "run_one_step dev tspan pv ini ns thr s
        = (Inl TypeError, snd (run_one_step_loop dev tspan pv ini ns thr s))"
    if "fst (run_one_step_loop dev tspan pv ini ns thr s) = Inr y" for y
    unfolding run_one_step_def
    by (simp add: seq_fst_cases(1) [where f = "run_one_step_loop dev tspan pv ini ns thr", OF that]
                  three_positional split: prod.splits)
  have c: "fst (run dev tspan pv ini ns thr vb s) \<noteq> Inr r"
  proof (cases "fst (run_loop dev tspan pv ini ns thr s)")
    case (Inl e)
    then show ?thesis unfolding run_def
      by (simp add: seq_fst_cases(2) [where f = "run_loop dev tspan pv ini ns thr", OF Inl])
  next
    case (Inr x)
    from a [OF Inr] show ?thesis by simp
  qed
  have d: "fst (run_one_step dev tspan pv ini ns thr s) \<noteq> Inr r"
  proof (cases "fst (run_one_step_loop dev tspan pv ini ns thr s)")
    case (Inl e)
    then show ?thesis unfolding run_one_step_def
      by (simp add: seq_fst_cases(2) [where f = "run_one_step_loop dev tspan pv ini ns thr", OF Inl])
  next
    case (Inr y)
    from b [OF Inr] show ?thesis by simp
  qed
  have e: "bng_result self tout yout = Inl TypeError"
    by (simp add: bng_result_def SimulationResult_def bind_args_def)
  from a b c d e show ?thesis by blast
qed

lemma run_loop_example:
  "fst (run_loop dev0 (Some [0, 1]) (Some [[1], [1], [1]]) (Some [[100, 0], [50, 0], [7, 1]])
          3 (Some 2) sim0)
   = Inr ([Some [0, 1], Some [0, 1], Some [0, 1]],
          [[[100, 0], [99, 1]], [[50, 0], [49, 1]], [[7, 1], [6, 2]]])"
  by code_simp

lemma run_one_step_loop_example:
  "fst (run_one_step_loop dev0 (Some [0, 1]) (Some [[1], [1], [1]])
          (Some [[100, 0], [50, 0], [7, 1]]) 3 (Some 2) sim0)
   = Inr ([Some [0, 1], Some [0, 1], Some [0, 1]],
          [[[100, 0], [99, 1]], [[50, 0], [49, 1]], [[7, 1], [6, 2]]])"
  by code_simp

theorem result_construction_raises_witness:
  "fst (run_loop dev0 (Some [0, 1]) (Some [[1], [1], [1]]) (Some [[100, 0], [50, 0], [7, 1]])
          3 (Some 2) sim0)
     = Inr ([Some [0, 1], Some [0, 1], Some [0, 1]],
            [[[100, 0], [99, 1]], [[50, 0], [49, 1]], [[7, 1], [6, 2]]])
   \<and> fst (run dev0 (Some [0, 1]) (Some [[1], [1], [1]]) (Some [[100, 0], [50, 0], [7, 1]])
          3 (Some 2) False sim0) = Inl TypeError
   \<and> fst (run_one_step_loop dev0 (Some [0, 1]) (Some [[1], [1], [1]])
          (Some [[100, 0], [50, 0], [7, 1]]) 3 (Some 2) sim0)
     = Inr ([Some [0, 1], Some [0, 1], Some [0, 1]],
            [[[100, 0], [99, 1]], [[50, 0], [49, 1]], [[7, 1], [6, 2]]])
   \<and> fst (run_one_step dev0 (Some [0, 1]) (Some [[1], [1], [1]])
          (Some [[100, 0], [50, 0], [7, 1]]) 3 (Some 2) sim0) = Inl TypeError"
  using result_construction_raises
          [of dev0 "Some [0, 1]" "Some [[1], [1], [1]]" "Some [[100, 0], [50, 0], [7, 1]]"
              3 "Some 2" sim0
              "([Some [0, 1], Some [0, 1], Some [0, 1]],
                [[[100, 0], [99, 1]], [[50, 0], [49, 1]], [[7, 1], [6, 2]]])"
              False
              "([Some [0, 1], Some [0, 1], Some [0, 1]],
                [[[100, 0], [99, 1]], [[50, 0], [49, 1]], [[7, 1], [6, 2]]])"]
        run_loop_example run_one_step_loop_example
  by simp

subsection \<open>Padding\<close>

text \<open>
  C5, amended. The rows of the parameter buffer from \<open>len(params)\<close> on and the rows of
  the species buffer from \<open>len(initials)\<close> on are zero, so rows
  \<open>[n_simulations, total_threads)\<close> of both are zero whenever \<open>initials\<close> has at most
  \<open>n_simulations = len(params)\<close> rows; and what \<open>_run\<close> and \<open>_run_all\<close> return is
  the first \<open>n_simulations\<close> rows of the device result buffer.
\<close>

theorem padding_rows:
  "(fst (priv_setup dev params s) = Inr u \<longrightarrow>
      (\<exists>p. self_param_tex (snd (priv_setup dev params s)) = Some p
           \<and> length p = nat (self_total_threads s)
           \<and> padding_is_zero (length params) p))
   \<and> (create_gpu_init ini s = Inr m \<longrightarrow>
        length m = nat (self_total_threads s)
        \<and> padding_is_zero (length (rows_of ini)) m
        \<and> (length (rows_of ini) \<le> length params \<longrightarrow> padding_is_zero (length params) m))
   \<and> (fst (priv_run dev st et params ini s) = Inr (res, cur) \<longrightarrow>
        (\<exists>sm buf lt.
           create_gpu_init ini (if self_step_0 s then snd (priv_setup dev params s) else s) = Inr sm
           \<and> fst (launch_one_step st et (length params) sm
                   (if self_step_0 s then snd (priv_setup dev params s) else s)) = Inr (buf, lt)
           \<and> res = take (length params) buf))
   \<and> (fst (priv_run_all dev tp params ini s) = Inr res3 \<longrightarrow>
        (\<exists>ts sm buf.
           tp = Some ts
           \<and> create_gpu_init ini (if self_step_0 s then snd (priv_setup dev params s) else s) = Inr sm
           \<and> fst (launch_all_steps ts sm
                   (if self_step_0 s then snd (priv_setup dev params s) else s)) = Inr buf
           \<and> res3 = take (length params) buf))"
proof -
  have a: "\<exists>p. self_param_tex (snd (priv_setup dev params s)) = Some p
           \<and> length p = nat (self_total_threads s)
           \<and> padding_is_zero (length params) p"
    if "fst (priv_setup dev params s) = Inr u"
    using priv_setup_padding [OF that] by blast
  have b: "length m = nat (self_total_threads s)
        \<and> padding_is_zero (length (rows_of ini)) m
        \<and> (length (rows_of ini) \<le> length params \<longrightarrow> padding_is_zero (length params) m)"
    if "create_gpu_init ini s = Inr m"
    using create_gpu_init_padding [OF that] padding_mono by blast
  have c: "\<exists>sm buf lt.
           create_gpu_init ini (if self_step_0 s then snd (priv_setup dev params s) else s) = Inr sm
           \<and> fst (launch_one_step st et (length params) sm
                   (if self_step_0 s then snd (priv_setup dev params s) else s)) = Inr (buf, lt)
           \<and> res = take (length params) buf"
    if "fst (priv_run dev st et params ini s) = Inr (res, cur)"
    using priv_run_result [OF that] by blast
  have d: "\<exists>ts sm buf.
           tp = Some ts
           \<and> create_gpu_init ini (if self_step_0 s then snd (priv_setup dev params s) else s) = Inr sm
           \<and> fst (launch_all_steps ts sm
                   (if self_step_0 s then snd (priv_setup dev params s) else s)) = Inr buf
           \<and> res3 = take (length params) buf"
    if "fst (priv_run_all dev tp params ini s) = Inr res3"
    using priv_run_all_result [OF that] by blast
  from a b c d show ?thesis by blast
qed

lemma padding_example_setup:
  "fst (priv_setup dev0 [[1], [1], [1]] sim0c) = Inr ()"
  by code_simp

lemma padding_example_init:
  "create_gpu_init (Floats [[100, 0], [50, 0], [7, 1]]) sim0c
     = Inr [[100, 0], [50, 0], [7, 1], [0, 0]]"
  by code_simp

lemma padding_example_run:
  "fst (priv_run dev0 [0, 0, 0] 1 [[1], [1], [1]] (Floats [[100, 0], [50, 0], [7, 1]]) sim0c)
     = Inr ([[99, 1], [49, 1], [6, 2]], [1, 1, 1])"
  by code_simp

lemma padding_example_run_all:
  "fst (priv_run_all dev0 (Some [0, 1]) [[1], [1], [1]] (Floats [[100, 0], [50, 0], [7, 1]]) sim0c)
     = Inr [[[100, 0], [99, 1]], [[50, 0], [49, 1]], [[7, 1], [6, 2]]]"
  by code_simp

theorem padding_rows_witness:
  "fst (priv_setup dev0 [[1], [1], [1]] sim0c) = Inr ()
   \<and> create_gpu_init (Floats [[100, 0], [50, 0], [7, 1]]) sim0c
       = Inr [[100, 0], [50, 0], [7, 1], [0, 0]]
   \<and> length (rows_of (Floats [[100, 0], [50, 0], [7, 1]])) \<le> length [[1::real], [1], [1]]
   \<and> padding_is_zero (length [[1::real], [1], [1]]) [[100, 0], [50, 0], [7, 1], [0, 0 :: int32]]
   \<and> fst (priv_run dev0 [0, 0, 0] 1 [[1], [1], [1]] (Floats [[100, 0], [50, 0], [7, 1]]) sim0c)
       = Inr ([[99, 1], [49, 1], [6, 2]], [1, 1, 1])
   \<and> fst (priv_run_all dev0 (Some [0, 1]) [[1], [1], [1]] (Floats [[100, 0], [50, 0], [7, 1]]) sim0c)
       = Inr [[[100, 0], [99, 1]], [[50, 0], [49, 1]], [[7, 1], [6, 2]]]
   \<and> (\<exists>p. self_param_tex (snd (priv_setup dev0 [[1], [1], [1]] sim0c)) = Some p
          \<and> padding_is_zero (length [[1::real], [1], [1]]) p)"
proof -
  note t = padding_rows [of dev0 "[[1], [1], [1]]" sim0c "()" "Floats [[100, 0], [50, 0], [7, 1]]"
                            "[[100, 0], [50, 0], [7, 1], [0, 0]]" "[0, 0, 0]" 1
                            "[[99, 1], [49, 1], [6, 2]]" "[1, 1, 1]" "Some [0, 1]"
                            "[[[100, 0], [99, 1]], [[50, 0], [49, 1]], [[7, 1], [6, 2]]]"]
  have le: "length (rows_of (Floats [[100, 0], [50, 0], [7, 1]])) \<le> length [[1::real], [1], [1]]"
    by simp
  from t padding_example_setup
  have p: "\<exists>p. self_param_tex (snd (priv_setup dev0 [[1], [1], [1]] sim0c)) = Some p
          \<and> padding_is_zero (length [[1::real], [1], [1]]) p"
    by blast
  from t padding_example_init le
  have q: "padding_is_zero (length [[1::real], [1], [1]]) [[100, 0], [50, 0], [7, 1], [0, 0 :: int32]]"
    by blast
  from p q le padding_example_setup padding_example_init padding_example_run
       padding_example_run_all
  show ?thesis by blast
qed

text \<open>
  The claim as stated fails when \<open>initials\<close> has more rows than \<open>param_values\<close>:
  \<open>run_one_step\<close> with one parameter row, two rows of initial counts and two threads
  hands the kernel a species buffer whose row 1, a padding row, is \<open>[7, 0]\<close>.
\<close>

theorem padding_rows_counterexample:
  "self_total_threads
     (snd (run_one_step dev0 (Some [0, 1]) (Some [[1]]) (Some [[5, 0], [7, 0]]) 0 (Some 2) sim0)) = 2
   \<and> species_buffers
       (snd (run_one_step dev0 (Some [0, 1]) (Some [[1]]) (Some [[5, 0], [7, 0]]) 0 (Some 2) sim0))
       = [[[5, 0], [7, 0]]]
   \<and> \<not> padding_is_zero (length [[1::real]]) [[5, 0], [7, 0 :: int32]]"
  by code_simp

subsection \<open>Kernel source\<close>

text \<open>
  C6. Kernel-source generation is deterministic for a fixed model: the source the
  constructor stored is what \<open>_pysb_to_cuda\<close> returns on the new simulator and after
  any sequence of calls on it, and two simulators constructed from the same model, with
  whatever other arguments and environment, hold the same source.
\<close>

theorem kernel_source_deterministic:
  "(init tmpl environ m vb ts ia pa = Inr s \<longrightarrow>
      pysb_to_cuda tmpl s = Inr (self_code s)
      \<and> pysb_to_cuda tmpl (lifetime dev calls s) = Inr (self_code s))
   \<and> (init tmpl environ m vb ts ia pa = Inr s
        \<and> init tmpl environ' m vb' ts' ia' pa' = Inr s' \<longrightarrow>
      self_code s' = self_code s)"
proof -
  have a: "pysb_to_cuda tmpl s = Inr (self_code s)
      \<and> pysb_to_cuda tmpl (lifetime dev calls s) = Inr (self_code s)"
    if i: "init tmpl environ m vb ts ia pa = Inr s"
  proof -
    from init_fields [OF i] have c: "pysb_to_cuda tmpl s = Inr (self_code s)" by simp
    have "pysb_to_cuda tmpl (lifetime dev calls s) = pysb_to_cuda tmpl s"
      by (rule pysb_to_cuda_stable [OF stable_lifetime])
    with c show ?thesis by simp
  qed
  have b: "self_code s' = self_code s"
    if i: "init tmpl environ m vb ts ia pa = Inr s"
      and i': "init tmpl environ' m vb' ts' ia' pa' = Inr s'"
  proof -
    from init_fields [OF i] init_fields [OF i']
    have f: "self_model s' = self_model s" "self_species_number s' = self_species_number s"
      "self_parameter_number s' = self_parameter_number s"
      and c: "pysb_to_cuda tmpl s = Inr (self_code s)"
      and c': "pysb_to_cuda tmpl s' = Inr (self_code s')"
      by simp_all
    from f have "pysb_to_cuda tmpl s' = pysb_to_cuda tmpl s"
      unfolding pysb_to_cuda_def by (simp cong: sum.case_cong)
    with c c' show ?thesis by simp
  qed
  from a b show ?thesis by blast
qed

lemma init_sim0: "init tmpl0 (\<lambda>_. None) m0 False None None None = Inr sim0"
proof -
  have "\<not> isl (init tmpl0 (\<lambda>_. None) m0 False None None None)" by code_simp
  then show ?thesis by (simp add: sim0_def)
qed

lemma init_sim1:
  "init tmpl0 (\<lambda>n. if n = ''CUDA_DEVICE'' then Some ''1'' else None) m0 False None None None
     = Inr sim1"
proof -
  have "\<not> isl (init tmpl0 (\<lambda>n. if n = ''CUDA_DEVICE'' then Some ''1'' else None)
                  m0 False None None None)" by code_simp
  then show ?thesis by (simp add: sim1_def)
qed

lemma init_simv:
  "init tmpl0 (\<lambda>n. if n = ''CUDA_DEVICE'' then Some '' 2'' else None)
        m0 True (Some [0, 1]) None (Some (PDict [(''k'', 3)])) = Inr simv"
proof -
  have "\<not> isl (init tmpl0 (\<lambda>n. if n = ''CUDA_DEVICE'' then Some '' 2'' else None)
                  m0 True (Some [0, 1]) None (Some (PDict [(''k'', 3)])))" by code_simp
  then show ?thesis by (simp add: simv_def)
qed

theorem kernel_source_deterministic_witness:
  "init tmpl0 (\<lambda>_. None) m0 False None None None = Inr sim0
   \<and> init tmpl0 (\<lambda>n. if n = ''CUDA_DEVICE'' then Some '' 2'' else None)
        m0 True (Some [0, 1]) None (Some (PDict [(''k'', 3)])) = Inr simv
   \<and> self_code simv = self_code sim0
   \<and> pysb_to_cuda tmpl0
        (lifetime dev0 [Run (Some [0, 1]) (Some [[1], [1], [1]])
                          (Some [[100, 0], [50, 0], [7, 1]]) 3 (Some 2) False,
                        SetParamValues (Some (PDict [(''k'', 5)]))] sim0)
       = Inr (self_code sim0)"
  using kernel_source_deterministic
          [of tmpl0 "\<lambda>_. None" m0 False None None None sim0 dev0
              "[Run (Some [0, 1]) (Some [[1], [1], [1]])
                  (Some [[100, 0], [50, 0], [7, 1]]) 3 (Some 2) False,
                SetParamValues (Some (PDict [(''k'', 5)]))]"
              "\<lambda>n. if n = ''CUDA_DEVICE'' then Some '' 2'' else None"
              True "Some [0, 1]" None "Some (PDict [(''k'', 3)])" simv]
        init_sim0 init_simv
  by blast

subsection \<open>Compilation\<close>

lemma seq_snd:
  "snd (seq f g s) = (case fst (f s) of Inl e \<Rightarrow> snd (f s) | Inr x \<Rightarrow> snd (g x (snd (f s))))"
  by (cases "f s") (simp add: seq_def split: sum.splits)

lemma priv_setup_compiles:
  "compilations (snd (priv_setup dev ps s)) = Suc (compilations s)"
  by (auto simp: priv_setup_def compile_def compilations_def Let_def
           split: sum.splits option.splits prod.splits)

lemma priv_setup_flag:
  "(fst (priv_setup dev ps s) = Inr u \<longrightarrow> \<not> self_step_0 (snd (priv_setup dev ps s)))
   \<and> (self_step_0 s \<and> fst (priv_setup dev ps s) = Inl e \<longrightarrow> self_step_0 (snd (priv_setup dev ps s)))"
  by (auto simp: priv_setup_def compile_def Let_def
           split: sum.splits option.splits prod.splits)

lemma after_setup:
  assumes "self_step_0 s" and "pres g"
  shows "compilations
           (snd (seq (\<lambda>s. if self_step_0 s then priv_setup dev ps s else (Inr (), s)) (\<lambda>_. g) s))
         = Suc (compilations s)"
proof (cases "fst (priv_setup dev ps s)")
  case (Inl e)
  with assms(1) show ?thesis by (simp add: seq_snd priv_setup_compiles)
next
  case (Inr u)
  let ?s1 = "snd (priv_setup dev ps s)"
  from Inr priv_setup_flag have f: "\<not> self_step_0 ?s1" by blast
  from assms(2) have "stable ?s1 (snd (g ?s1))" by (simp add: pres_def)
  with f have "compilations (snd (g ?s1)) = compilations ?s1" by (simp add: stable_def)
  with Inr assms(1) show ?thesis by (simp add: seq_snd priv_setup_compiles)
qed

text \<open>
  C7, amended. Once \<open>_step_0\<close> is cleared it stays cleared and no call compiles again,
  whatever the calls; while it is set, every \<open>_run\<close> and \<open>_run_all\<close> sends the source
  to the compiler once; \<open>_setup\<close> clears the flag when it completes and leaves it set
  when it raises.
\<close>

theorem compiles_until_setup_completes:
  "(\<not> self_step_0 s \<longrightarrow>
      \<not> self_step_0 (lifetime dev calls s)
      \<and> compilations (lifetime dev calls s) = compilations s)
   \<and> (self_step_0 s \<longrightarrow>
      compilations (snd (priv_run dev st et ps ini s)) = Suc (compilations s)
      \<and> compilations (snd (priv_run_all dev tp ps ini s)) = Suc (compilations s))
   \<and> (fst (priv_setup dev ps s) = Inr u \<longrightarrow> \<not> self_step_0 (snd (priv_setup dev ps s)))
   \<and> (self_step_0 s \<and> fst (priv_setup dev ps s) = Inl e \<longrightarrow>
      self_step_0 (snd (priv_setup dev ps s)))"
proof -
  have a: "\<not> self_step_0 (lifetime dev calls s)
      \<and> compilations (lifetime dev calls s) = compilations s" if "\<not> self_step_0 s"
    using stable_lifetime [of s dev calls] that by (simp add: stable_def)
  have b: "compilations (snd (priv_run dev st et ps ini s)) = Suc (compilations s)"
    if "self_step_0 s"
    unfolding priv_run_def
    by (rule after_setup [OF that])
       (intro pres_seq pres_pure pres_launch_one_step, auto simp: pres_ret split: prod.splits)
  have c: "compilations (snd (priv_run_all dev tp ps ini s)) = Suc (compilations s)"
    if "self_step_0 s"
    unfolding priv_run_all_def
    by (rule after_setup [OF that])
       (intro pres_seq pres_pure pres_launch_all_steps pres_lift pres_ret)
  from a b c priv_setup_flag [of dev ps s u e] show ?thesis by blast
qed

lemma compile_examples:
  "self_step_0 sim0c"
  "\<not> self_step_0 (snd (priv_run dev0 [0, 0, 0] 1 [[1], [1], [1]]
                        (Floats [[100, 0], [50, 0], [7, 1]]) sim0c))"
  "fst (priv_setup dev1 [[1], [1], [1]] sim0c) = Inl LaunchError"
  "compilations sim0c = 0"
  "compilations (snd (priv_run dev0 [0, 0, 0] 1 [[1], [1], [1]]
                        (Floats [[100, 0], [50, 0], [7, 1]]) sim0c)) = 1"
  by code_simp+

theorem compiles_until_setup_completes_witness:
  "self_step_0 sim0c
   \<and> compilations (snd (priv_run dev0 [0, 0, 0] 1 [[1], [1], [1]]
                          (Floats [[100, 0], [50, 0], [7, 1]]) sim0c)) = Suc (compilations sim0c)
   \<and> \<not> self_step_0 (snd (priv_run dev0 [0, 0, 0] 1 [[1], [1], [1]]
                          (Floats [[100, 0], [50, 0], [7, 1]]) sim0c))
   \<and> compilations
       (lifetime dev0
          [PrivRun [1, 1, 1] 2 [[1], [1], [1]] (Ints [[99, 1], [49, 1], [6, 2]]),
           Run (Some [0, 1]) (Some [[1], [1], [1]]) (Some [[100, 0], [50, 0], [7, 1]])
             3 (Some 2) False]
          (snd (priv_run dev0 [0, 0, 0] 1 [[1], [1], [1]]
                  (Floats [[100, 0], [50, 0], [7, 1]]) sim0c))) = 1
   \<and> fst (priv_setup dev0 [[1], [1], [1]] sim0c) = Inr ()
   \<and> \<not> self_step_0 (snd (priv_setup dev0 [[1], [1], [1]] sim0c))
   \<and> fst (priv_setup dev1 [[1], [1], [1]] sim0c) = Inl LaunchError
   \<and> self_step_0 (snd (priv_setup dev1 [[1], [1], [1]] sim0c))"
proof -
  let ?s1 = "snd (priv_run dev0 [0, 0, 0] 1 [[1], [1], [1]]
                    (Floats [[100, 0], [50, 0], [7, 1]]) sim0c)"
  let ?calls = "[PrivRun [1, 1, 1] 2 [[1], [1], [1]] (Ints [[99, 1], [49, 1], [6, 2]]),
                 Run (Some [0, 1]) (Some [[1], [1], [1]]) (Some [[100, 0], [50, 0], [7, 1]])
                   3 (Some 2) False]"
  note t0 = compiles_until_setup_completes
              [of sim0c dev0 "[]" "[0, 0, 0]" 1 "[[1], [1], [1]]"
                  "Floats [[100, 0], [50, 0], [7, 1]]" None "()" TypeError]
  note t1 = compiles_until_setup_completes
              [of ?s1 dev0 ?calls "[]" 0 "[]" "Floats []" None "()" TypeError]
  note t2 = compiles_until_setup_completes
              [of sim0c dev1 "[]" "[]" 0 "[[1], [1], [1]]" "Floats []" None "()" LaunchError]
  from t0 compile_examples(1) padding_example_setup
  have a: "compilations ?s1 = Suc (compilations sim0c)"
    and b: "\<not> self_step_0 (snd (priv_setup dev0 [[1], [1], [1]] sim0c))"
    by blast+
  from t1 compile_examples(2) have "compilations (lifetime dev0 ?calls ?s1) = compilations ?s1"
    by blast
  with compile_examples(5) have c: "compilations (lifetime dev0 ?calls ?s1) = 1" by simp
  from t2 compile_examples(1,3)
  have d: "self_step_0 (snd (priv_setup dev1 [[1], [1], [1]] sim0c))" by blast
  from a b c d compile_examples padding_example_setup show ?thesis by blast
qed

text \<open>
  The claim as stated fails when \<open>_setup\<close> raises after the build: on a device whose
  texture upload fails, two calls of \<open>run\<close> compile the kernel twice.
\<close>

theorem compiles_once_counterexample:
  "compilations
     (lifetime dev1
        [Run (Some [0, 1]) (Some [[1]]) (Some [[100, 0]]) 1 (Some 2) False,
         Run (Some [0, 1]) (Some [[1]]) (Some [[100, 0]]) 1 (Some 2) False]
        sim0) = 2"
  by code_simp

subsection \<open>Malformed configuration\<close>






subsection \<open>Device\<close>

lemma lifetime_ignores_device:
  "lifetime dev calls (s\<lparr>self_device := d\<rparr>) = (lifetime dev calls s)\<lparr>self_device := d\<rparr>"
  unfolding lifetime_def
  by (induction calls arbitrary: s) (simp_all add: exec_ignores_device)

lemma context_of_variable:
  assumes "environ ''CUDA_DEVICE'' = Some t"
    and "make_default_context environ cdf usable = Inr d"
  shows "int_of_string t = Inr d"
  using assms
  by (auto simp: make_default_context_def make_context_def split: if_splits sum.splits)

lemma context_default:
  assumes "environ ''CUDA_DEVICE'' = None"
  shows "make_default_context environ None (True # rest) = Inr 0"
  using assms by (simp add: make_default_context_def)

text \<open>
  C10, amended. Without \<open>CUDA_DEVICE\<close> the constructor records device 0; with it, the
  integer value of the variable. No method reads the recorded index: with any other
  index every sequence of calls does the same, up to that attribute. The simulation runs
  on the device of the context made at import, which is the recorded device when the
  variable is set and the same at import and at construction, and when it is absent, no
  \<open>.cuda_device\<close> file exists and a context can be made on device 0.
\<close>

theorem device_from_environment:
  "(environ ''CUDA_DEVICE'' = None \<and> init tmpl environ m vb ts ia pa = Inr s \<longrightarrow>
      self_device s = 0
      \<and> make_default_context environ None (True # rest) = Inr (self_device s))
   \<and> (environ ''CUDA_DEVICE'' = Some t \<and> init tmpl environ m vb ts ia pa = Inr s \<longrightarrow>
      int_of_string t = Inr (self_device s))
   \<and> (environ ''CUDA_DEVICE'' = Some t \<and> init tmpl environ m vb ts ia pa = Inr s
        \<and> make_default_context environ cdf usable = Inr d \<longrightarrow>
      d = self_device s \<and> autoinit environ cdf usable hardware = Inr (hardware (self_device s)))
   \<and> lifetime dev calls (s0\<lparr>self_device := d0\<rparr>) = (lifetime dev calls s0)\<lparr>self_device := d0\<rparr>
   \<and> trace (lifetime dev calls (s0\<lparr>self_device := d0\<rparr>)) = trace (lifetime dev calls s0)"
proof -
  have a: "self_device s = 0 \<and> make_default_context environ None (True # rest) = Inr (self_device s)"
    if "environ ''CUDA_DEVICE'' = None" and "init tmpl environ m vb ts ia pa = Inr s"
    using init_fields [OF that(2)] that(1) context_default [where environ = environ and rest = rest, OF that(1)] by simp
  have b: "int_of_string t = Inr (self_device s)"
    if "environ ''CUDA_DEVICE'' = Some t" and "init tmpl environ m vb ts ia pa = Inr s"
    using init_fields [OF that(2)] that(1) by simp
  have c: "d = self_device s \<and> autoinit environ cdf usable hardware = Inr (hardware (self_device s))"
    if "environ ''CUDA_DEVICE'' = Some t" and "init tmpl environ m vb ts ia pa = Inr s"
      and "make_default_context environ cdf usable = Inr d"
  proof -
    from b [OF that(1,2)] context_of_variable [where environ = environ, OF that(1,3)] have "d = self_device s" by simp
    with that(3) show ?thesis by (simp add: autoinit_def)
  qed
  from a b c show ?thesis by (simp add: lifetime_ignores_device)
qed

lemma context_examples:
  "make_default_context (\<lambda>n. if n = ''CUDA_DEVICE'' then Some '' 2'' else None) None
     [True, True, True] = Inr 2"
  "int_of_string '' 2'' = Inr 2"
  by code_simp+

theorem device_from_environment_witness:
  "init tmpl0 (\<lambda>_. None) m0 False None None None = Inr sim0
   \<and> self_device sim0 = 0
   \<and> make_default_context (\<lambda>_. None) None (True # [True]) = Inr (self_device sim0)
   \<and> init tmpl0 (\<lambda>n. if n = ''CUDA_DEVICE'' then Some '' 2'' else None)
        m0 True (Some [0, 1]) None (Some (PDict [(''k'', 3)])) = Inr simv
   \<and> int_of_string '' 2'' = Inr (self_device simv)
   \<and> make_default_context (\<lambda>n. if n = ''CUDA_DEVICE'' then Some '' 2'' else None) None
        [True, True, True] = Inr 2
   \<and> self_device simv = 2
   \<and> autoinit (\<lambda>n. if n = ''CUDA_DEVICE'' then Some '' 2'' else None) None
        [True, True, True] hardware0 = Inr (hardware0 (self_device simv))"
proof -
  note t0 = device_from_environment
              [where environ = "\<lambda>_. None" and tmpl = tmpl0 and m = m0 and vb = False
                 and ts = None and ia = None and pa = None and s = sim0 and rest = "[True]"]
  note t1 = device_from_environment
              [where environ = "\<lambda>n. if n = ''CUDA_DEVICE'' then Some '' 2'' else None"
                 and tmpl = tmpl0 and m = m0 and vb = True and ts = "Some [0, 1]" and ia = None
                 and pa = "Some (PDict [(''k'', 3)])" and s = simv and t = "'' 2''"
                 and cdf = None and usable = "[True, True, True]" and d = 2
                 and hardware = hardware0]
  from t0 init_sim0
  have a: "self_device sim0 = 0"
    "make_default_context (\<lambda>_. None) None (True # [True]) = Inr (self_device sim0)"
    by blast+
  from t1 init_simv have b: "int_of_string '' 2'' = Inr (self_device simv)" by simp
  from t1 init_simv context_examples(1)
  have c: "2 = self_device simv"
    "autoinit (\<lambda>n. if n = ''CUDA_DEVICE'' then Some '' 2'' else None) None
        [True, True, True] hardware0 = Inr (hardware0 (self_device simv))"
    by simp_all
  from a b c init_sim0 init_simv context_examples(1) show ?thesis by simp
qed

text \<open>
  The claim as stated fails in its last part. When \<open>CUDA_DEVICE=1\<close> is set after the
  import and before the construction, the constructor records device 1 and the
  simulation runs on device 0: its set-up completes, as on device 0, where on device 1
  the upload fails. With the variable absent, the context is on device 1 when
  \<open>.cuda_device\<close> says so or when no context can be made on device 0, and the
  constructor records device 0.
\<close>

theorem device_choice_counterexample:
  "make_default_context (\<lambda>_. None) None [True, True] = Inr 0
   \<and> self_device sim1 = 1
   \<and> fst (priv_setup (projr (autoinit (\<lambda>_. None) None [True, True] hardware0))
             [[1], [1], [1]] (snd (configure (Some 2) 3 sim1))) = Inr ()
   \<and> fst (priv_setup (hardware0 (self_device sim1))
             [[1], [1], [1]] (snd (configure (Some 2) 3 sim1))) = Inl LaunchError
   \<and> make_default_context (\<lambda>_. None) (Some ''1'') [True, True] = Inr 1
   \<and> make_default_context (\<lambda>_. None) None [False, True] = Inr 1
   \<and> self_device sim0 = 0"
  by code_simp


subsection \<open>Launch geometry\<close>




end
